theory Spec2Isabelle
  imports Complex_Main "HOL-Library.Char_ord" "HOL-Library.List_Lexorder" "HOL-Library.Multiset"
begin

section \<open>Text and numbers of the Python program\<close>

text \<open>
  Text is modelled as \<open>string\<close>, one \<open>char\<close> for each character, and covers ASCII text:
  the character classes below are those of Python on the characters below 128. A cell of
  a table, and every other value that is either text or missing (\<^verbatim>\<open>None\<close> or the
  \<^verbatim>\<open>NaN\<close> that pandas stores for an empty cell), is a \<open>string option\<close>.

  A Python \<^verbatim>\<open>float\<close> is a binary64 value. Every finite binary64 value is a rational
  number, so a float is modelled as a rational number or one of the three special values.
  Comparison, negation, absolute value and the remainder are exact on binary64 and are
  modelled exactly. \<^verbatim>\<open>float()\<close>, the sums, the quotient and the product are carried out
  on the rational numbers, without the rounding to the nearest binary64 value (and the
  overflow to an infinity) that the code performs; the sum of the credits is modelled a
  second time with this rounding, where a property depends on it.
\<close>

datatype pyfloat = Finite rat | PInf | NInf | NaN

datatype py_error = ValueError

definition fneg :: "pyfloat \<Rightarrow> pyfloat" where
  "fneg x = (case x of Finite r \<Rightarrow> Finite (- r) | PInf \<Rightarrow> NInf | NInf \<Rightarrow> PInf | NaN \<Rightarrow> NaN)"

definition fabs :: "pyfloat \<Rightarrow> pyfloat" where
  "fabs x = (case x of Finite r \<Rightarrow> Finite \<bar>r\<bar> | PInf \<Rightarrow> PInf | NInf \<Rightarrow> PInf | NaN \<Rightarrow> NaN)"

text \<open>The comparisons \<^verbatim>\<open>x > 0\<close>, \<^verbatim>\<open>x <= 0\<close>, \<^verbatim>\<open>x < 0\<close>, \<^verbatim>\<open>x >= 0\<close> and \<^verbatim>\<open>x == 0\<close>;
  each is false on \<^verbatim>\<open>NaN\<close>.\<close>

definition fgt0 :: "pyfloat \<Rightarrow> bool" where
  "fgt0 x = (case x of Finite r \<Rightarrow> 0 < r | PInf \<Rightarrow> True | NInf \<Rightarrow> False | NaN \<Rightarrow> False)"


definition flt0 :: "pyfloat \<Rightarrow> bool" where
  "flt0 x = (case x of Finite r \<Rightarrow> r < 0 | PInf \<Rightarrow> False | NInf \<Rightarrow> True | NaN \<Rightarrow> False)"

definition fge0 :: "pyfloat \<Rightarrow> bool" where
  "fge0 x = (case x of Finite r \<Rightarrow> 0 \<le> r | PInf \<Rightarrow> True | NInf \<Rightarrow> False | NaN \<Rightarrow> False)"

definition feq0 :: "pyfloat \<Rightarrow> bool" where
  "feq0 x = (case x of Finite r \<Rightarrow> r = 0 | PInf \<Rightarrow> False | NInf \<Rightarrow> False | NaN \<Rightarrow> False)"

text \<open>
  \<^verbatim>\<open>x % m\<close> for a float \<^verbatim>\<open>x\<close> and a positive integer constant \<^verbatim>\<open>m\<close>: the remainder of the
  floored division, which is \<^verbatim>\<open>NaN\<close> when \<^verbatim>\<open>x\<close> is not finite.
\<close>

definition fmod_pos :: "pyfloat \<Rightarrow> int \<Rightarrow> pyfloat" where
  "fmod_pos x m =
     (case x of
        Finite r \<Rightarrow> Finite (r - of_int m * of_int \<lfloor>r / of_int m\<rfloor>)
      | PInf \<Rightarrow> NaN | NInf \<Rightarrow> NaN | NaN \<Rightarrow> NaN)"

subsection \<open>Characters and strings\<close>

text \<open>The ASCII digits and letters, and the two letter cases of Python on them.\<close>

definition ascii_digits :: string where
  "ascii_digits = ''0123456789''"

definition ascii_uppercase :: string where
  "ascii_uppercase = ''ABCDEFGHIJKLMNOPQRSTUVWXYZ''"

definition ascii_lowercase :: string where
  "ascii_lowercase = ''abcdefghijklmnopqrstuvwxyz''"

definition is_digit :: "char \<Rightarrow> bool" where
  "is_digit c = (c \<in> set ascii_digits)"

definition digit_val :: "char \<Rightarrow> nat" where
  "digit_val c = (case map_of (zip ascii_digits [0, 1, 2, 3, 4, 5, 6, 7, 8, 9]) c of Some v \<Rightarrow> v | None \<Rightarrow> 0)"

definition is_upper :: "char \<Rightarrow> bool" where
  "is_upper c = (c \<in> set ascii_uppercase)"

definition is_lower :: "char \<Rightarrow> bool" where
  "is_lower c = (c \<in> set ascii_lowercase)"

definition is_alnum :: "char \<Rightarrow> bool" where
  "is_alnum c = (is_upper c \<or> is_lower c \<or> is_digit c)"

definition to_lower :: "char \<Rightarrow> char" where
  "to_lower c =
     (case map_of (zip ascii_uppercase ascii_lowercase) c of Some l \<Rightarrow> l | None \<Rightarrow> c)"

definition to_upper :: "char \<Rightarrow> char" where
  "to_upper c =
     (case map_of (zip ascii_lowercase ascii_uppercase) c of Some u \<Rightarrow> u | None \<Rightarrow> c)"

definition lower :: "string \<Rightarrow> string" where
  "lower s = map to_lower s"

definition upper :: "string \<Rightarrow> string" where
  "upper s = map to_upper s"

text \<open>
  The whitespace of \<^verbatim>\<open>str.strip()\<close>, \<^verbatim>\<open>str.split()\<close> and \<^verbatim>\<open>\s\<close> (the characters 9 to 13
  and 28 to 32), and the whitespace that \<^verbatim>\<open>float()\<close> strips from an ASCII string (9 to 13
  and 32).
\<close>

definition py_isspace :: "char \<Rightarrow> bool" where
  "py_isspace c =
     (c \<in> set [CHR 0x09, CHR 0x0A, CHR 0x0B, CHR 0x0C, CHR 0x0D,
                 CHR 0x1C, CHR 0x1D, CHR 0x1E, CHR 0x1F, CHR 0x20])"

definition c_isspace :: "char \<Rightarrow> bool" where
  "c_isspace c = (c \<in> set [CHR 0x09, CHR 0x0A, CHR 0x0B, CHR 0x0C, CHR 0x0D, CHR 0x20])"

definition strip_with :: "(char \<Rightarrow> bool) \<Rightarrow> string \<Rightarrow> string" where
  "strip_with sp s = rev (dropWhile sp (rev (dropWhile sp s)))"

definition strip :: "string \<Rightarrow> string" where
  "strip s = strip_with py_isspace s"

text \<open>\<^verbatim>\<open>s.startswith(p)\<close> and \<^verbatim>\<open>k in s\<close> for strings.\<close>

fun startswith :: "string \<Rightarrow> string \<Rightarrow> bool" where
  "startswith s [] = True"
| "startswith [] (p # ps) = False"
| "startswith (c # cs) (p # ps) = (c = p \<and> startswith cs ps)"

fun contains :: "string \<Rightarrow> string \<Rightarrow> bool" where
  "contains [] k = (k = [])"
| "contains (c # cs) k = (startswith (c # cs) k \<or> contains cs k)"

text \<open>\<^verbatim>\<open>sep.join(xs)\<close> of Python.\<close>

fun join :: "string \<Rightarrow> string list \<Rightarrow> string" where
  "join sep [] = []"
| "join sep [x] = x"
| "join sep (x # y # ys) = x @ sep @ join sep (y # ys)"

text \<open>
  A notion of the specification, first-seen order: the distinct elements of a list in the
  order of their first occurrence (after those of \<open>acc\<close>).
\<close>

fun spec_first_seen :: "'a list \<Rightarrow> 'a list \<Rightarrow> 'a list" where
  "spec_first_seen acc [] = acc"
| "spec_first_seen acc (x # xs) =
     (if x \<in> set acc then spec_first_seen acc xs else spec_first_seen (acc @ [x]) xs)"

subsection \<open>The built-in \<^verbatim>\<open>float()\<close> on text\<close>

text \<open>
  \<^verbatim>\<open>float(s)\<close> first checks the underscores of \<^verbatim>\<open>s\<close> (each one stands between two
  digits) and removes them, then strips whitespace, then reads an optional sign followed by
  \<^verbatim>\<open>inf\<close>, \<^verbatim>\<open>infinity\<close> or \<^verbatim>\<open>nan\<close> in any case, or by a decimal number with an optional
  exponent. Text that is not of this form raises \<^verbatim>\<open>ValueError\<close>.
\<close>

fun underscores_ok :: "char \<Rightarrow> string \<Rightarrow> bool" where
  "underscores_ok prev [] = (prev \<noteq> CHR ''_'')"
| "underscores_ok prev (c # cs) =
     (if c = CHR ''_'' then is_digit prev \<and> underscores_ok c cs
      else if prev = CHR ''_'' then is_digit c \<and> underscores_ok c cs
      else underscores_ok c cs)"

definition digits_val :: "string \<Rightarrow> nat" where
  "digits_val ds = foldl (\<lambda>a c. 10 * a + digit_val c) 0 ds"

definition split_digits :: "string \<Rightarrow> string \<times> string" where
  "split_digits s = (takeWhile is_digit s, dropWhile is_digit s)"

text \<open>The exponent part after the mantissa: nothing, or \<^verbatim>\<open>e\<close> or \<^verbatim>\<open>E\<close>, an optional sign
  and at least one digit up to the end of the text.\<close>

definition parse_exponent :: "string \<Rightarrow> int option" where
  "parse_exponent s =
     (case s of
        [] \<Rightarrow> Some 0
      | c # r \<Rightarrow>
          if c = CHR ''e'' \<or> c = CHR ''E'' then
            (let (neg, ds) =
                   (case r of
                      [] \<Rightarrow> (False, r)
                    | d # r' \<Rightarrow>
                        if d = CHR ''-'' then (True, r')
                        else if d = CHR ''+'' then (False, r')
                        else (False, r))
             in if ds \<noteq> [] \<and> list_all is_digit ds
                then Some (if neg then - int (digits_val ds) else int (digits_val ds))
                else None)
          else None)"

definition pow10 :: "int \<Rightarrow> rat" where
  "pow10 e = (if 0 \<le> e then 10 ^ nat e else 1 / 10 ^ nat (- e))"

definition parse_decimal :: "string \<Rightarrow> rat option" where
  "parse_decimal s =
     (let (ip, r1) = split_digits s;
          (fp, r2) = (case r1 of
                        [] \<Rightarrow> ([], r1)
                      | c # r \<Rightarrow> if c = CHR ''.'' then split_digits r else ([], r1))
      in if ip = [] \<and> fp = [] then None
         else (case parse_exponent r2 of
                 None \<Rightarrow> None
               | Some e \<Rightarrow>
                   Some (of_nat (digits_val (ip @ fp)) / 10 ^ length fp * pow10 e)))"

definition parse_inf_or_nan :: "string \<Rightarrow> pyfloat option" where
  "parse_inf_or_nan s =
     (let l = lower s in
        if l = ''inf'' \<or> l = ''infinity'' then Some PInf
        else if l = ''nan'' then Some NaN
        else None)"

definition parse_unsigned :: "string \<Rightarrow> pyfloat option" where
  "parse_unsigned s =
     (case parse_decimal s of
        Some r \<Rightarrow> Some (Finite r)
      | None \<Rightarrow> parse_inf_or_nan s)"

definition parse_signed :: "string \<Rightarrow> pyfloat option" where
  "parse_signed s =
     (case s of
        [] \<Rightarrow> None
      | c # r \<Rightarrow>
          if c = CHR ''-'' then map_option fneg (parse_unsigned r)
          else if c = CHR ''+'' then parse_unsigned r
          else parse_unsigned s)"

definition py_float :: "string \<Rightarrow> py_error + pyfloat" where
  "py_float s =
     (if \<not> underscores_ok (CHR 0x00) s then Inl ValueError
      else
        (case parse_signed (strip_with c_isspace (filter (\<lambda>c. c \<noteq> CHR ''_'') s)) of
           None \<Rightarrow> Inl ValueError
         | Some v \<Rightarrow> Inr v))"

section \<open>Monetary normalizer\<close>

text \<open>
  \<^verbatim>\<open>moneyfy\<close>. The argument is a cell: \<open>None\<close> when \<^verbatim>\<open>pd.isna(x)\<close> holds, the text of the
  cell otherwise. \<open>moneyfy_try\<close> is the body of the \<^verbatim>\<open>try\<close>, in which \<^verbatim>\<open>float()\<close> may
  raise; \<open>moneyfy\<close> adds the handler \<^verbatim>\<open>except: return 0.0\<close>.
\<close>

definition clean_amount :: "string \<Rightarrow> string" where
  "clean_amount t = strip (filter (\<lambda>c. c \<noteq> CHR '','') t)"

definition parenthesized :: "string \<Rightarrow> bool" where
  "parenthesized s = (s \<noteq> [] \<and> hd s = CHR ''('' \<and> last s = CHR '')'')"

definition moneyfy_try :: "string option \<Rightarrow> py_error + pyfloat" where
  "moneyfy_try x =
     (case x of
        None \<Rightarrow> Inr (Finite 0)
      | Some t \<Rightarrow>
          let s = clean_amount t in
            if parenthesized s then
              (case py_float (butlast (tl s)) of
                 Inl e \<Rightarrow> Inl e
               | Inr v \<Rightarrow> Inr (fneg v))
            else if s \<noteq> [] then py_float s
            else Inr (Finite 0))"

definition moneyfy :: "string option \<Rightarrow> pyfloat" where
  "moneyfy x = (case moneyfy_try x of Inl e \<Rightarrow> Finite 0 | Inr v \<Rightarrow> v)"

section \<open>Counterparty extractor\<close>

text \<open>
  The search of \<^verbatim>\<open>get_counterparty\<close> is
  \<^verbatim>\<open>re.search(r"([A-Za-z0-9 &\.-]+(?:SDN BHD|BERHAD|PLT|ENTERPRISE|TRADING|HOLDINGS|CAFE|CENTRE|SENDIRIAN))", desc, re.I)\<close>.
  The character class and the alternatives of the pattern:
\<close>

definition name_char :: "char \<Rightarrow> bool" where
  "name_char c =
     (is_alnum c \<or> c = CHR '' '' \<or> c = CHR ''&'' \<or> c = CHR ''.'' \<or> c = CHR ''-'')"

definition ENTITY_SUFFIXES :: "string list" where
  "ENTITY_SUFFIXES =
     [''SDN BHD'', ''BERHAD'', ''PLT'', ''ENTERPRISE'', ''TRADING'', ''HOLDINGS'', ''CAFE'',
      ''CENTRE'', ''SENDIRIAN'']"

text \<open>A literal of the pattern at the head of the text, letters compared without case.\<close>

fun ci_startswith :: "string \<Rightarrow> string \<Rightarrow> bool" where
  "ci_startswith s [] = True"
| "ci_startswith [] (p # ps) = False"
| "ci_startswith (c # cs) (p # ps) = (to_upper c = to_upper p \<and> ci_startswith cs ps)"

text \<open>The alternation: the first alternative, in the order of the pattern, that matches
  at the head of the text.\<close>

definition match_suffix :: "string \<Rightarrow> string option" where
  "match_suffix rest = find (\<lambda>suf. ci_startswith rest suf) ENTITY_SUFFIXES"

text \<open>
  The greedy \<^verbatim>\<open>+\<close> with backtracking, at one start position: \<open>match_back s k\<close> lets the
  class take \<open>k\<close> characters of \<open>s\<close> and tries the alternation after them, then gives one
  character back and tries again, down to one character. It returns the matched text.
\<close>

fun match_back :: "string \<Rightarrow> nat \<Rightarrow> string option" where
  "match_back s 0 = None"
| "match_back s (Suc k) =
     (case match_suffix (drop (Suc k) s) of
        Some suf \<Rightarrow> Some (take (Suc k + length suf) s)
      | None \<Rightarrow> match_back s k)"

definition match_here :: "string \<Rightarrow> string option" where
  "match_here s = match_back s (length (takeWhile name_char s))"

text \<open>\<^verbatim>\<open>re.search\<close>: the match at the leftmost start position that has one.\<close>

fun re_search_name :: "string \<Rightarrow> string option" where
  "re_search_name [] = None"
| "re_search_name (c # cs) =
     (case match_here (c # cs) of
        Some m \<Rightarrow> Some m
      | None \<Rightarrow> re_search_name cs)"

text \<open>\<^verbatim>\<open>re.sub(r"\s+", " ", t)\<close>: each run of whitespace becomes one space. The flag says
  that the character before was whitespace.\<close>

fun collapse_ws :: "bool \<Rightarrow> string \<Rightarrow> string" where
  "collapse_ws prev [] = []"
| "collapse_ws prev (c # cs) =
     (if py_isspace c then (if prev then collapse_ws True cs else CHR '' '' # collapse_ws True cs)
      else c # collapse_ws False cs)"

text \<open>\<^verbatim>\<open>str.split()\<close>: the maximal runs of characters that are not whitespace; \<open>w\<close> is the
  word being read.\<close>

fun split_ws :: "string \<Rightarrow> string \<Rightarrow> string list" where
  "split_ws w [] = (if w = [] then [] else [w])"
| "split_ws w (c # cs) =
     (if py_isspace c then (if w = [] then split_ws [] cs else w # split_ws [] cs)
      else split_ws (w @ [c]) cs)"

text \<open>\<^verbatim>\<open>re.sub(r"[^A-Za-z0-9 ]", " ", desc)\<close>.\<close>

definition blank_non_alnum :: "string \<Rightarrow> string" where
  "blank_non_alnum s = map (\<lambda>c. if is_alnum c \<or> c = CHR '' '' then c else CHR '' '') s"

text \<open>\<^verbatim>\<open>get_counterparty\<close>; the argument \<open>None\<close> is a value that is not a \<^verbatim>\<open>str\<close>.\<close>

definition get_counterparty :: "string option \<Rightarrow> string" where
  "get_counterparty desc =
     (case desc of
        None \<Rightarrow> ''UNKNOWN''
      | Some d \<Rightarrow>
          (case re_search_name d of
             Some m \<Rightarrow> upper (strip (collapse_ws False m))
           | None \<Rightarrow>
               let parts = split_ws [] (blank_non_alnum d) in
                 if parts \<noteq> [] then upper (join '' '' (take 4 parts)) else ''UNKNOWN''))"

section \<open>Industry classifier\<close>

definition BASE_INDUSTRY :: string where
  "BASE_INDUSTRY = ''food''"

text \<open>
  \<^verbatim>\<open>INDUSTRY_KEYWORDS\<close>, a dict from industry to a set of keywords, as an association list.
  The result of the classifier is a set, so the order of the dict and of the keyword sets
  does not show in it.
\<close>

definition INDUSTRY_KEYWORDS :: "(string \<times> string list) list" where
  "INDUSTRY_KEYWORDS =
    [(''food'', [''food'', ''cafe'', ''restaurant'', ''eatery'', ''bakery'', ''drink'',
                 ''grocer'', ''catering'']),
     (''construction'', [''cement'', ''steel'', ''hardware'', ''concrete'', ''construction'',
                         ''builder'']),
     (''healthcare'', [''clinic'', ''hospital'', ''medical'', ''pharma'', ''health'']),
     (''logistics'', [''transport'', ''delivery'', ''freight'', ''courier'']),
     (''education'', [''school'', ''college'', ''academy'', ''training'', ''tuition''])]"

text \<open>\<^verbatim>\<open>detect_other_industries\<close>; the argument \<open>None\<close> is a value that is not a \<^verbatim>\<open>str\<close>.\<close>

definition detect_other_industries :: "string option \<Rightarrow> string set" where
  "detect_other_industries desc =
     (case desc of
        None \<Rightarrow> {}
      | Some d \<Rightarrow>
          let s = lower d in
            set (map fst (filter (\<lambda>(ind, kws). list_ex (\<lambda>k. contains s k) kws)
                            INDUSTRY_KEYWORDS)))"

section \<open>Rule engine\<close>

text \<open>
  \<^verbatim>\<open>Series.astype(str)\<close> on the description column: text stays, a missing cell becomes the
  text \<^verbatim>\<open>nan\<close>.
\<close>

definition astype_str :: "string option \<Rightarrow> string" where
  "astype_str x = (case x of None \<Rightarrow> ''nan'' | Some t \<Rightarrow> t)"

text \<open>
  Rule B, the loop over the narratives of one counterparty's credit transactions, which
  leaves at the first mismatch:
  \<^verbatim>\<open>
  mismatch = False
  for d in txns["desc"].astype(str).tolist():
      inds = detect_other_industries(d)
      if inds and (BASE_INDUSTRY not in inds):
          mismatch = True
          break
  \<close>
\<close>

fun mismatch_loop :: "string list \<Rightarrow> bool" where
  "mismatch_loop [] = False"
| "mismatch_loop (d # ds) =
     (let inds = detect_other_industries (Some d) in
        if inds \<noteq> {} \<and> BASE_INDUSTRY \<notin> inds then True else mismatch_loop ds)"

definition industry_mismatch :: "string option list \<Rightarrow> bool" where
  "industry_mismatch descs = mismatch_loop (map astype_str descs)"

text \<open>
  Rule C on the credits of one counterparty:
  \<^verbatim>\<open>any((abs(c) % 10000 == 0) or (abs(c) % 5000 == 0) for c in credits if c > 0)\<close>.
\<close>

definition round_pattern :: "pyfloat list \<Rightarrow> bool" where
  "round_pattern credits =
     list_ex (\<lambda>c. feq0 (fmod_pos (fabs c) 10000) \<or> feq0 (fmod_pos (fabs c) 5000))
       (filter fgt0 credits)"

text \<open>The same check with the divisor 5000 alone, to compare with.\<close>

definition round_pattern_5000 :: "pyfloat list \<Rightarrow> bool" where
  "round_pattern_5000 credits =
     list_ex (\<lambda>c. feq0 (fmod_pos (fabs c) 5000)) (filter fgt0 credits)"

text \<open>
  The simpler predicate of the specification: a credit is an exact positive multiple of
  5000.
\<close>

definition spec_multiple_of_5000 :: "pyfloat \<Rightarrow> bool" where
  "spec_multiple_of_5000 c = (\<exists>k::int. 0 < k \<and> c = Finite (of_int (5000 * k)))"

section \<open>Aggregation pipeline\<close>

subsection \<open>From the rows of a table to transactions\<close>

text \<open>
  A row of a table read by \<^verbatim>\<open>pd.read_csv\<close> gives, for a column name, the cell of that
  column: its text, or \<open>None\<close> for a missing cell. A number that pandas has parsed in a
  numeric column stands for its text. The four columns that \<^verbatim>\<open>run_analysis\<close> adds to the
  table are the fields of a transaction.
\<close>

type_synonym raw_row = "string \<Rightarrow> string option"

record transaction =
  desc :: "string option"
  credit :: pyfloat
  debit :: pyfloat
  company :: string

text \<open>
  \<^verbatim>\<open>df[col].apply(moneyfy) if col else 0.0\<close>, where \<^verbatim>\<open>col\<close> is \<^verbatim>\<open>None\<close> or a column
  name; an empty name is false as well.
\<close>

definition amount_column :: "string option \<Rightarrow> raw_row \<Rightarrow> pyfloat" where
  "amount_column col row =
     (case col of
        None \<Rightarrow> Finite 0
      | Some c \<Rightarrow> if c \<noteq> [] then moneyfy (row c) else Finite 0)"

definition to_transaction ::
  "string \<Rightarrow> string option \<Rightarrow> string option \<Rightarrow> raw_row \<Rightarrow> transaction" where
  "to_transaction desc_col credit_col debit_col row =
     \<lparr> desc = row desc_col,
       credit = amount_column credit_col row,
       debit = amount_column debit_col row,
       company = get_counterparty (row desc_col) \<rparr>"

text \<open>A table whose description column is not found is skipped; \<^verbatim>\<open>pd.concat\<close> puts the
  rows of the other tables one after the other.\<close>

record table =
  desc_col :: "string option"
  credit_col :: "string option"
  debit_col :: "string option"
  rows :: "raw_row list"

definition load_table :: "table \<Rightarrow> transaction list option" where
  "load_table t =
     (case desc_col t of
        None \<Rightarrow> None
      | Some d \<Rightarrow>
          if d = [] then None
          else Some (map (to_transaction d (credit_col t) (debit_col t)) (rows t)))"

definition merge_tables :: "table list \<Rightarrow> transaction list" where
  "merge_tables ts = concat (List.map_filter load_table ts)"

subsection \<open>Arithmetic of the pipeline\<close>

text \<open>Addition, subtraction, division and multiplication of floats, with the special
  values of binary64; the model has one zero, and a quotient by it is infinite or
  \<^verbatim>\<open>NaN\<close> as in numpy.\<close>

fun fadd :: "pyfloat \<Rightarrow> pyfloat \<Rightarrow> pyfloat" where
  "fadd (Finite a) (Finite b) = Finite (a + b)"
| "fadd NaN y = NaN"
| "fadd x NaN = NaN"
| "fadd PInf NInf = NaN"
| "fadd NInf PInf = NaN"
| "fadd PInf y = PInf"
| "fadd x PInf = PInf"
| "fadd NInf y = NInf"
| "fadd x NInf = NInf"




text \<open>The comparison \<^verbatim>\<open>x >= y\<close> of two floats, false when one is \<^verbatim>\<open>NaN\<close>.\<close>

fun fge :: "pyfloat \<Rightarrow> pyfloat \<Rightarrow> bool" where
  "fge (Finite a) (Finite b) = (b \<le> a)"
| "fge NaN y = False"
| "fge x NaN = False"
| "fge PInf y = True"
| "fge x NInf = True"
| "fge x PInf = False"
| "fge NInf y = False"

text \<open>\<^verbatim>\<open>Series.sum()\<close>, which skips \<^verbatim>\<open>NaN\<close>; the sum of no value is 0.\<close>

definition nansum :: "pyfloat list \<Rightarrow> pyfloat" where
  "nansum xs = foldl fadd (Finite 0) (filter (\<lambda>x. x \<noteq> NaN) xs)"

text \<open>\<^verbatim>\<open>Series.round(1)\<close>: numpy rounds \<^verbatim>\<open>x * 10\<close> to the nearest integer, a tie to the
  even one, and divides by 10.\<close>

definition round_half_even :: "rat \<Rightarrow> int" where
  "round_half_even x =
     (let f = \<lfloor>x\<rfloor>; d = x - of_int f in
        if d < 1 / 2 then f
        else if 1 / 2 < d then f + 1
        else if even f then f else f + 1)"


subsection \<open>Totals, grouping and ranking\<close>

text \<open>
  \<^verbatim>\<open>data[data["credit"] > 0].groupby("company")["credit"].sum()\<close>: pandas sorts the group
  keys (\<^verbatim>\<open>sort=True\<close> is the default of \<^verbatim>\<open>groupby\<close>), so the result lists the companies
  in ascending order of their names, each with the sum of its credits.
\<close>

definition positive_credits :: "transaction list \<Rightarrow> transaction list" where
  "positive_credits data = filter (\<lambda>t. fgt0 (credit t)) data"

definition groupby_sum :: "transaction list \<Rightarrow> (string \<times> pyfloat) list" where
  "groupby_sum txs =
     map (\<lambda>k. (k, nansum (map credit (filter (\<lambda>t. company t = k) txs))))
       (sort (remdups (map company txs)))"

text \<open>
  \<^verbatim>\<open>Series.nlargest(n)\<close> with its default \<^verbatim>\<open>keep="first"\<close>: the \<open>n\<close> largest values in
  descending order, equal values in the order in which they stand in the series; \<^verbatim>\<open>NaN\<close>
  values come last. \<open>sort_desc\<close> is the stable sort in descending order, by insertion.
\<close>

fun insert_desc :: "string \<times> pyfloat \<Rightarrow> (string \<times> pyfloat) list \<Rightarrow> (string \<times> pyfloat) list"
  where
  "insert_desc x [] = [x]"
| "insert_desc x (y # ys) =
     (if fge (snd x) (snd y) then x # y # ys else y # insert_desc x ys)"

definition sort_desc :: "(string \<times> pyfloat) list \<Rightarrow> (string \<times> pyfloat) list" where
  "sort_desc xs = foldr insert_desc xs []"

definition nlargest :: "nat \<Rightarrow> (string \<times> pyfloat) list \<Rightarrow> (string \<times> pyfloat) list" where
  "nlargest n s =
     take n (sort_desc (filter (\<lambda>x. snd x \<noteq> NaN) s) @ filter (\<lambda>x. snd x = NaN) s)"

text \<open>The totals of \<^verbatim>\<open>run_analysis\<close>.\<close>

definition total_in :: "transaction list \<Rightarrow> pyfloat" where
  "total_in data = nansum (map credit data)"



text \<open>
  The table \<^verbatim>\<open>top5\<close> with its column \<^verbatim>\<open>pct\<close>: a row is the company, its summed credit
  and its share \<^verbatim>\<open>(credit / total_in * 100).round(1)\<close>.
\<close>

definition top5_groups :: "transaction list \<Rightarrow> (string \<times> pyfloat) list" where
  "top5_groups data = nlargest 5 (groupby_sum (positive_credits data))"




text \<open>
  A cell that carries no sign: it is missing, or its text has no minus sign and is not
  enclosed in parentheses once the commas are removed and the text is stripped.
\<close>

definition unsigned_cell :: "string option \<Rightarrow> bool" where
  "unsigned_cell x =
     (case x of
        None \<Rightarrow> True
      | Some t \<Rightarrow> CHR ''-'' \<notin> set t \<and> \<not> parenthesized (clean_amount t))"

subsection \<open>Ranking order and the selection of the specification\<close>

text \<open>
  The order in which two rows of the grouped series are ranked when ties go to the smaller
  company name: the larger sum first, and of two equal sums the smaller name first.
\<close>

definition ranks_before :: "string \<times> pyfloat \<Rightarrow> string \<times> pyfloat \<Rightarrow> bool" where
  "ranks_before x y =
     ((fge (snd x) (snd y) \<and> snd x \<noteq> snd y) \<or> (snd x = snd y \<and> fst x < fst y))"

text \<open>
  The selection as the specification words it, ties going to the group seen first: the
  groups stand in the order in which their companies first occur in the merged
  transactions, and the stable selection of the five largest follows.
\<close>

definition spec_groupby_first_seen :: "transaction list \<Rightarrow> (string \<times> pyfloat) list" where
  "spec_groupby_first_seen txs =
     map (\<lambda>k. (k, nansum (map credit (filter (\<lambda>t. company t = k) txs))))
       (spec_first_seen [] (map company txs))"

definition spec_top5_first_seen :: "transaction list \<Rightarrow> (string \<times> pyfloat) list" where
  "spec_top5_first_seen data = nlargest 5 (spec_groupby_first_seen (positive_credits data))"

text \<open>Tables of one description column and one credit column, for the examples.\<close>

definition credit_table :: "(string \<times> string) list \<Rightarrow> table" where
  "credit_table cells =
     \<lparr> desc_col = Some ''Description'', credit_col = Some ''Credit'', debit_col = None,
       rows = map (\<lambda>(d, c). map_of [(''Description'', d), (''Credit'', c)]) cells \<rparr>"

text \<open>
  Three merged inputs for the examples: six companies with the same credit, met in the
  order F, E, D, C, B, A; a credit of 100 beside a credit written \<^verbatim>\<open>(50)\<close>; and three
  credits whose shares round to 33.4, 33.4 and 33.3.
\<close>

definition tie_example :: "transaction list" where
  "tie_example =
     merge_tables
       [credit_table [(''F'', ''100''), (''E'', ''100''), (''D'', ''100'')],
        credit_table [(''C'', ''100''), (''B'', ''100''), (''A'', ''100'')]]"



text \<open>A stored amount that is a finite number and not negative, and the number of a
  finite float.\<close>

definition finite_nonneg :: "pyfloat \<Rightarrow> bool" where
  "finite_nonneg x = (case x of Finite r \<Rightarrow> 0 \<le> r | PInf \<Rightarrow> False | NInf \<Rightarrow> False | NaN \<Rightarrow> False)"

definition fval :: "pyfloat \<Rightarrow> rat" where
  "fval x = (case x of Finite r \<Rightarrow> r | PInf \<Rightarrow> 0 | NInf \<Rightarrow> 0 | NaN \<Rightarrow> 0)"





subsection \<open>The sums with the rounding of binary64\<close>

text \<open>
  The totals of the code are sums of binary64 numbers, and each addition rounds its exact
  result to the nearest binary64 number, a tie to the one with the even significand.
  \<open>round_binary64\<close> is this rounding on the numbers of the normal range: the exact value
  is scaled so that its integer part has 53 binary digits, rounded to an integer, and
  scaled back. \<open>total_in_binary64\<close> is \<^verbatim>\<open>float(data["credit"].sum())\<close> with the rounding
  of \<^verbatim>\<open>float()\<close> on each cell and of each addition; the sum of fewer than eight numbers
  adds them one after the other, starting from 0.
\<close>

fun bit_length :: "nat \<Rightarrow> nat" where
  "bit_length n = (if n = 0 then 0 else Suc (bit_length (n div 2)))"

declare bit_length.simps [simp del]

text \<open>The integer \<open>e\<close> with \<open>2 ^ e \<le> x < 2 ^ (e + 1)\<close>, for \<open>x > 0\<close>.\<close>

definition floor_log2 :: "rat \<Rightarrow> int" where
  "floor_log2 x =
     (if 1 \<le> x then int (bit_length (nat \<lfloor>x\<rfloor>)) - 1
      else - int (bit_length (nat (\<lceil>1 / x\<rceil> - 1))))"

definition pow2 :: "int \<Rightarrow> rat" where
  "pow2 e = (if 0 \<le> e then 2 ^ nat e else 1 / 2 ^ nat (- e))"

definition round_binary64 :: "rat \<Rightarrow> rat" where
  "round_binary64 x =
     (if x = 0 then 0
      else let u = pow2 (floor_log2 \<bar>x\<bar> - 52) in of_int (round_half_even (x / u)) * u)"







section \<open>Policy matrix and policy mapper\<close>

text \<open>
  \<^verbatim>\<open>POLICY_MATRIX\<close> is a dict from rule identifier to a dict with the two keys
  \<^verbatim>\<open>action_level\<close> and \<^verbatim>\<open>action\<close>. An entry is a record, the dict an association list
  in the order of the source, looked up with \<open>map_of\<close>.
\<close>

record policy_item =
  action_level :: string
  action :: string

definition INCOME_CONCENTRATION_item :: policy_item where
  "INCOME_CONCENTRATION_item = \<lparr>
     action_level = ''Enhanced Review'',
     action = ''Assess income concentration risk and apply a haircut/discount to this income source when calculating sustainable income and affordability.'' \<rparr>"

definition INDUSTRY_MISMATCH_item :: policy_item where
  "INDUSTRY_MISMATCH_item = \<lparr>
     action_level = ''Clarification Required'',
     action = ''Request clarification and supporting documents (e.g., invoices, contracts, delivery proof) to verify whether inflows represent genuine operating revenue. Consider excluding non-core inflows.'' \<rparr>"

definition ROUND_AMOUNT_PATTERN_item :: policy_item where
  "ROUND_AMOUNT_PATTERN_item = \<lparr>
     action_level = ''Cash Flow Normalization'',
     action = ''Perform cash flow normalization by excluding unusually round or repetitive transactions. Review for potential fund cycling or related-party transfers.'' \<rparr>"

definition ESCALATE_HIGH_item :: policy_item where
  "ESCALATE_HIGH_item = \<lparr>
     action_level = ''Escalate'',
     action = ''Escalate to Credit Risk / Compliance for enhanced due diligence before proceeding with any lending decision.'' \<rparr>"

definition MONITOR_MEDIUM_item :: policy_item where
  "MONITOR_MEDIUM_item = \<lparr>
     action_level = ''Monitor'',
     action = ''Obtain additional explanation and monitor closely before fully recognizing this income as sustainable.'' \<rparr>"

definition STANDARD_SAFE_item :: policy_item where
  "STANDARD_SAFE_item = \<lparr>
     action_level = ''Standard'',
     action = ''No immediate action required. Continue standard monitoring.'' \<rparr>"

definition POLICY_MATRIX_entries :: "(string \<times> policy_item) list" where
  "POLICY_MATRIX_entries =
    [(''INCOME_CONCENTRATION'', INCOME_CONCENTRATION_item),
     (''INDUSTRY_MISMATCH'', INDUSTRY_MISMATCH_item),
     (''ROUND_AMOUNT_PATTERN'', ROUND_AMOUNT_PATTERN_item),
     (''ESCALATE_HIGH'', ESCALATE_HIGH_item),
     (''MONITOR_MEDIUM'', MONITOR_MEDIUM_item),
     (''STANDARD_SAFE'', STANDARD_SAFE_item)]"

definition POLICY_MATRIX :: "string \<rightharpoonup> policy_item" where
  "POLICY_MATRIX = map_of POLICY_MATRIX_entries"

text \<open>
  The first loop of \<^verbatim>\<open>build_policy_actions\<close>: the entries of the rule identifiers that are
  keys of the matrix, in the order of \<^verbatim>\<open>rule_ids\<close>; an identifier that is no key is passed
  over.
\<close>

fun collect_items :: "string list \<Rightarrow> policy_item list" where
  "collect_items [] = []"
| "collect_items (rid # rids) =
     (case POLICY_MATRIX rid of
        Some it \<Rightarrow> it # collect_items rids
      | None \<Rightarrow> collect_items rids)"

text \<open>The \<^verbatim>\<open>if risk == "High" ... elif risk == "Medium" ... else\<close> chain.\<close>

definition risk_item :: "string \<Rightarrow> policy_item" where
  "risk_item risk =
     (if risk = ''High'' then ESCALATE_HIGH_item
      else if risk = ''Medium'' then MONITOR_MEDIUM_item
      else STANDARD_SAFE_item)"

definition policy_items :: "string \<Rightarrow> string list \<Rightarrow> policy_item list" where
  "policy_items risk rule_ids = collect_items rule_ids @ [risk_item risk]"

text \<open>The local dict \<^verbatim>\<open>priority\<close>, and \<^verbatim>\<open>priority.get(lvl, 0)\<close>.\<close>

definition priority :: "string \<rightharpoonup> nat" where
  "priority = map_of
    [(''Escalate'', 5),
     (''Cash Flow Normalization'', 4),
     (''Enhanced Review'', 3),
     (''Clarification Required'', 2),
     (''Monitor'', 1),
     (''Standard'', 0)]"

definition priority_get :: "string \<Rightarrow> nat" where
  "priority_get lvl = (case priority lvl of Some p \<Rightarrow> p | None \<Rightarrow> 0)"

text \<open>
  The second loop, over \<^verbatim>\<open>items\<close>, with its three variables \<^verbatim>\<open>final_level\<close>,
  \<^verbatim>\<open>actions\<close> and \<^verbatim>\<open>seen\<close> passed as the state.
\<close>

type_synonym policy_state = "string \<times> string list \<times> string set"

definition policy_step :: "policy_item \<Rightarrow> policy_state \<Rightarrow> policy_state" where
  "policy_step it st =
     (case st of (final_level, actions, seen) \<Rightarrow>
        let lvl = action_level it;
            act = action it;
            actions' = (if act \<notin> seen then actions @ [act] else actions);
            seen' = (if act \<notin> seen then insert act seen else seen);
            final_level' =
              (if priority_get lvl > priority_get final_level then lvl else final_level)
        in (final_level', actions', seen'))"

fun policy_loop :: "policy_item list \<Rightarrow> policy_state \<Rightarrow> policy_state" where
  "policy_loop [] st = st"
| "policy_loop (it # its) st = policy_loop its (policy_step it st)"

definition policy_result :: "string \<Rightarrow> string list \<Rightarrow> policy_state" where
  "policy_result risk rule_ids = policy_loop (policy_items risk rule_ids) (''Standard'', [], {})"

definition policy_level :: "string \<Rightarrow> string list \<Rightarrow> string" where
  "policy_level risk rule_ids = fst (policy_result risk rule_ids)"

definition policy_actions :: "string \<Rightarrow> string list \<Rightarrow> string list" where
  "policy_actions risk rule_ids = fst (snd (policy_result risk rule_ids))"

definition build_policy_actions :: "string \<Rightarrow> string list \<Rightarrow> string \<times> string" where
  "build_policy_actions risk rule_ids =
     (policy_level risk rule_ids, join '' '' (policy_actions risk rule_ids))"

text \<open>The six action levels that the fixed order of priority ranks.\<close>

definition known_levels :: "string set" where
  "known_levels = {''Escalate'', ''Cash Flow Normalization'', ''Enhanced Review'',
     ''Clarification Required'', ''Monitor'', ''Standard''}"

text \<open>
  The entries that the mapper is to work on, in the words of the specification: the matrix
  entries of the rule identifiers that are keys of the matrix, in their order, followed by
  exactly one entry chosen by the risk: ESCALATE_HIGH for \<^verbatim>\<open>"High"\<close>, MONITOR_MEDIUM for
  \<^verbatim>\<open>"Medium"\<close>, STANDARD_SAFE for every other risk.
\<close>

definition spec_risk_key :: "string \<Rightarrow> string" where
  "spec_risk_key risk =
     (if risk = ''High'' then ''ESCALATE_HIGH''
      else if risk = ''Medium'' then ''MONITOR_MEDIUM''
      else ''STANDARD_SAFE'')"

definition spec_entries :: "string \<Rightarrow> string list \<Rightarrow> policy_item list" where
  "spec_entries risk rule_ids =
     map (\<lambda>r. the (POLICY_MATRIX r)) (filter (\<lambda>r. POLICY_MATRIX r \<noteq> None) rule_ids)
     @ [the (POLICY_MATRIX (spec_risk_key risk))]"

section \<open>Properties of the monetary normalizer\<close>

lemmas moneyfy_eval = moneyfy_def moneyfy_try_def clean_amount_def strip_def strip_with_def
  py_isspace_def parenthesized_def py_float_def c_isspace_def is_digit_def parse_signed_def
  parse_unsigned_def fneg_def parse_inf_or_nan_def lower_def to_lower_def ascii_digits_def
  ascii_uppercase_def ascii_lowercase_def parse_decimal_def split_digits_def
  parse_exponent_def digits_val_def digit_val_def pow10_def Let_def

lemma moneyfy_examples:
  "moneyfy (Some ''1,234.50'') = Finite (2469 / 2)"
  "moneyfy (Some ''(500)'') = Finite (- 500)"
  "moneyfy (Some '''') = Finite 0"
  "moneyfy None = Finite 0"
  "moneyfy (Some ''abc'') = Finite 0"
  by (simp_all add: moneyfy_eval)

lemma py_float_error: "py_float s = Inl e \<Longrightarrow> e = ValueError"
  by (cases e) simp

text \<open>
  Claim C7. The monetary normalizer returns a value on every input: whenever \<^verbatim>\<open>float()\<close>
  raises in its body, the handler returns 0.0. A missing value gives 0.0; text that is
  blank once its commas are removed and it is stripped gives 0.0; text on which
  \<^verbatim>\<open>float()\<close> raises (directly, or between the parentheses) gives 0.0. On the five inputs
  of the specification: \<^verbatim>\<open>"1,234.50"\<close> gives 1234.5, \<^verbatim>\<open>"(500)"\<close> gives -500,
  and \<^verbatim>\<open>""\<close>, \<^verbatim>\<open>None\<close> and \<^verbatim>\<open>"abc"\<close> give 0.
\<close>

theorem C7_moneyfy_total:
  "(moneyfy_try x = Inr (moneyfy x) \<or> (moneyfy_try x = Inl ValueError \<and> moneyfy x = Finite 0))
   \<and> moneyfy None = Finite 0
   \<and> (clean_amount t = [] \<longrightarrow> moneyfy (Some t) = Finite 0)
   \<and> (\<not> parenthesized (clean_amount t) \<and> py_float (clean_amount t) = Inl ValueError
        \<longrightarrow> moneyfy (Some t) = Finite 0)
   \<and> (parenthesized (clean_amount t) \<and> py_float (butlast (tl (clean_amount t))) = Inl ValueError
        \<longrightarrow> moneyfy (Some t) = Finite 0)
   \<and> moneyfy (Some ''1,234.50'') = Finite (2469 / 2)
   \<and> moneyfy (Some ''(500)'') = Finite (- 500)
   \<and> moneyfy (Some '''') = Finite 0
   \<and> moneyfy (Some ''abc'') = Finite 0"
proof -
  have total: "moneyfy_try x = Inr (moneyfy x) \<or> (moneyfy_try x = Inl ValueError \<and> moneyfy x = Finite 0)"
  proof (cases "moneyfy_try x")
    case (Inl e)
    then show ?thesis by (cases e) (simp add: moneyfy_def)
  next
    case (Inr v)
    then show ?thesis by (simp add: moneyfy_def)
  qed
  have blank: "clean_amount t = [] \<longrightarrow> moneyfy (Some t) = Finite 0"
    by (simp add: moneyfy_def moneyfy_try_def parenthesized_def)
  have bad1: "\<not> parenthesized (clean_amount t) \<and> py_float (clean_amount t) = Inl ValueError
        \<longrightarrow> moneyfy (Some t) = Finite 0"
    by (simp add: moneyfy_def moneyfy_try_def Let_def)
  have bad2: "parenthesized (clean_amount t) \<and> py_float (butlast (tl (clean_amount t))) = Inl ValueError
        \<longrightarrow> moneyfy (Some t) = Finite 0"
    by (simp add: moneyfy_def moneyfy_try_def Let_def)
  show ?thesis using total blank bad1 bad2 moneyfy_examples by blast
qed

text \<open>
  The three hypotheses of C7 at concrete texts: a blank text, a malformed text and a
  malformed text in parentheses.
\<close>

theorem C7_moneyfy_total_witness:
  "clean_amount '' , '' = [] \<and> moneyfy (Some '' , '') = Finite 0
   \<and> \<not> parenthesized (clean_amount ''12a'') \<and> py_float (clean_amount ''12a'') = Inl ValueError
   \<and> moneyfy (Some ''12a'') = Finite 0
   \<and> parenthesized (clean_amount ''(1.2.3)'')
   \<and> py_float (butlast (tl (clean_amount ''(1.2.3)''))) = Inl ValueError
   \<and> moneyfy (Some ''(1.2.3)'') = Finite 0"
proof -
  have a: "clean_amount '' , '' = []"
    by (simp add: moneyfy_eval)
  have b: "\<not> parenthesized (clean_amount ''12a'') \<and> py_float (clean_amount ''12a'') = Inl ValueError"
    by (simp add: moneyfy_eval)
  have c: "parenthesized (clean_amount ''(1.2.3)'')
     \<and> py_float (butlast (tl (clean_amount ''(1.2.3)''))) = Inl ValueError"
    by (simp add: moneyfy_eval)
  show ?thesis
    using a b c C7_moneyfy_total [of _ "'' , ''"] C7_moneyfy_total [of _ "''12a''"]
      C7_moneyfy_total [of _ "''(1.2.3)''"]
    by blast
qed


section \<open>Properties of the counterparty extractor\<close>

text \<open>
  On the first input of the specification the class \<^verbatim>\<open>[A-Za-z0-9 &\.-]+\<close> starts at the
  first character of the narrative and takes the words before the company name as well:
  the match begins at \<^verbatim>\<open>PAYMENT\<close> and ends with the suffix \<^verbatim>\<open>SDN BHD\<close>.
\<close>

lemma get_counterparty_payment:
  "get_counterparty (Some ''PAYMENT FROM ACME TRADING SDN BHD REF123'')
     = ''PAYMENT FROM ACME TRADING SDN BHD''"
  by code_simp

lemma get_counterparty_fallback:
  "get_counterparty (Some ''xyz random note 123 abc'') = ''XYZ RANDOM NOTE 123''"
  by code_simp

lemma get_counterparty_unknown:
  "get_counterparty None = ''UNKNOWN''"
  "get_counterparty (Some ''!!!'') = ''UNKNOWN''"
  by code_simp+

text \<open>
  Claim C1, as stated, fails on its first equation: the extractor does not return
  \<^verbatim>\<open>ACME TRADING SDN BHD\<close> for \<^verbatim>\<open>PAYMENT FROM ACME TRADING SDN BHD REF123\<close>.
\<close>

theorem C1_counterexample:
  "get_counterparty (Some ''PAYMENT FROM ACME TRADING SDN BHD REF123'')
     \<noteq> ''ACME TRADING SDN BHD''"
  unfolding get_counterparty_payment by simp

text \<open>
  Claim C1, amended. The extractor returns \<^verbatim>\<open>PAYMENT FROM ACME TRADING SDN BHD\<close> for
  \<^verbatim>\<open>PAYMENT FROM ACME TRADING SDN BHD REF123\<close> (the suffix path keeps the text from the
  start of the run of name characters up to the suffix), \<^verbatim>\<open>XYZ RANDOM NOTE 123\<close> for
  \<^verbatim>\<open>xyz random note 123 abc\<close> (the first four tokens), and \<^verbatim>\<open>UNKNOWN\<close> for \<^verbatim>\<open>None\<close>
  and for \<^verbatim>\<open>!!!\<close>.
\<close>

theorem C1_extract_examples:
  "get_counterparty (Some ''PAYMENT FROM ACME TRADING SDN BHD REF123'')
     = ''PAYMENT FROM ACME TRADING SDN BHD''
   \<and> get_counterparty (Some ''xyz random note 123 abc'') = ''XYZ RANDOM NOTE 123''
   \<and> get_counterparty None = ''UNKNOWN''
   \<and> get_counterparty (Some ''!!!'') = ''UNKNOWN''"
  using get_counterparty_payment get_counterparty_fallback get_counterparty_unknown
  by simp

section \<open>Properties of the rule engine\<close>

lemma fmod_zero_iff:
  assumes "0 < m"
  shows "feq0 (fmod_pos (Finite r) m) \<longleftrightarrow> (\<exists>k::int. r = of_int (m * k))"
proof
  assume "feq0 (fmod_pos (Finite r) m)"
  then have "r = of_int m * of_int \<lfloor>r / of_int m\<rfloor>"
    by (simp add: feq0_def fmod_pos_def)
  then have "r = of_int (m * \<lfloor>r / of_int m\<rfloor>)" by simp
  then show "\<exists>k::int. r = of_int (m * k)" by blast
next
  assume "\<exists>k::int. r = of_int (m * k)"
  then obtain k :: int where k: "r = of_int (m * k)" by blast
  have "r / of_int m = of_int k" using assms by (simp add: k)
  then show "feq0 (fmod_pos (Finite r) m)"
    by (simp add: feq0_def fmod_pos_def k)
qed

lemma round_check_pointwise:
  "(feq0 (fmod_pos (fabs c) 10000) \<or> feq0 (fmod_pos (fabs c) 5000)) = feq0 (fmod_pos (fabs c) 5000)"
proof (cases c)
  case (Finite r)
  have "feq0 (fmod_pos (Finite \<bar>r\<bar>) 10000) \<Longrightarrow> feq0 (fmod_pos (Finite \<bar>r\<bar>) 5000)"
  proof -
    assume "feq0 (fmod_pos (Finite \<bar>r\<bar>) 10000)"
    then obtain k :: int where "\<bar>r\<bar> = of_int (10000 * k)"
      using fmod_zero_iff [of 10000 "\<bar>r\<bar>"] by auto
    then have "\<bar>r\<bar> = of_int (5000 * (2 * k))" by simp
    then have e: "\<exists>j::int. \<bar>r\<bar> = of_int (5000 * j)" by blast
    have "(0::int) < 5000" by simp
    from fmod_zero_iff [OF this, of "\<bar>r\<bar>"] e show ?thesis by blast
  qed
  then show ?thesis by (auto simp: Finite fabs_def)
qed (simp_all add: fabs_def fmod_pos_def feq0_def)

lemma pos_multiple: "fgt0 c \<and> feq0 (fmod_pos (fabs c) 5000) \<longleftrightarrow> spec_multiple_of_5000 c"
proof (cases c)
  case (Finite r)
  show ?thesis
  proof
    assume a: "fgt0 c \<and> feq0 (fmod_pos (fabs c) 5000)"
    then have pos: "0 < r" by (simp add: Finite fgt0_def)
    with a obtain k :: int where k: "r = of_int (5000 * k)"
      using fmod_zero_iff [of 5000 r] by (auto simp: Finite fabs_def)
    with pos have "0 < k" by (simp add: zero_less_mult_iff)
    with k show "spec_multiple_of_5000 c" by (auto simp: spec_multiple_of_5000_def Finite)
  next
    assume "spec_multiple_of_5000 c"
    then obtain k :: int where k: "0 < k" "r = of_int (5000 * k)"
      by (auto simp: spec_multiple_of_5000_def Finite)
    then have pos: "0 < r" by simp
    moreover have "feq0 (fmod_pos (Finite r) 5000)"
    proof -
      have e: "\<exists>j::int. r = of_int (5000 * j)" using k(2) by blast
      have "(0::int) < 5000" by simp
      from fmod_zero_iff [OF this, of r] e show ?thesis by blast
    qed
    ultimately show "fgt0 c \<and> feq0 (fmod_pos (fabs c) 5000)"
      by (simp add: Finite fgt0_def fabs_def)
  qed
qed (simp_all add: fgt0_def spec_multiple_of_5000_def fabs_def fmod_pos_def feq0_def)

text \<open>
  Claim C10. The round-amount check of the code, some credit \<^verbatim>\<open>c > 0\<close> with
  \<^verbatim>\<open>abs(c) % 10000 == 0\<close> or \<^verbatim>\<open>abs(c) % 5000 == 0\<close>, holds exactly when the check with
  the divisor 5000 alone holds, and exactly when some credit is an exact positive multiple
  of 5000: the divisor 10000 is redundant.
\<close>

theorem C10_round_divisor_redundant:
  "round_pattern credits = round_pattern_5000 credits
   \<and> round_pattern credits = (\<exists>c \<in> set credits. spec_multiple_of_5000 c)"
proof -
  have a: "round_pattern credits = round_pattern_5000 credits"
    by (simp add: round_pattern_def round_pattern_5000_def round_check_pointwise)
  have "round_pattern_5000 credits = (\<exists>c \<in> set credits. fgt0 c \<and> feq0 (fmod_pos (fabs c) 5000))"
    by (auto simp: round_pattern_5000_def list_ex_iff)
  then have "round_pattern_5000 credits = (\<exists>c \<in> set credits. spec_multiple_of_5000 c)"
    by (simp add: pos_multiple)
  with a show ?thesis by simp
qed

lemma mismatch_loop_iff:
  "mismatch_loop ds \<longleftrightarrow>
     (\<exists>d \<in> set ds. detect_other_industries (Some d) \<noteq> {}
        \<and> BASE_INDUSTRY \<notin> detect_other_industries (Some d))"
  by (induction ds) (auto simp: Let_def)

lemma mismatch_loop_filter:
  "mismatch_loop ds = mismatch_loop (filter (\<lambda>d. detect_other_industries (Some d) \<noteq> {}) ds)"
  by (induction ds) (auto simp: Let_def)

lemma detect_subset_taxonomy:
  "detect_other_industries x \<subseteq> set (map fst INDUSTRY_KEYWORDS)"
  by (cases x) (auto simp: detect_other_industries_def Let_def)

lemma detect_missing: "detect_other_industries (Some (astype_str None)) = {}"
  by (simp add: detect_other_industries_def astype_str_def INDUSTRY_KEYWORDS_def lower_def
      to_lower_def ascii_uppercase_def ascii_lowercase_def)

text \<open>
  Claim C8. For every list of narratives of a counterparty's credit transactions, the
  industry-mismatch rule fires exactly when some narrative classifies into at least one
  industry and the base industry is not among the industries of that narrative. The
  industries of a narrative are industries of the taxonomy. A narrative that matches no
  industry never triggers the rule: the rule gives the same answer with these narratives
  left out, and a missing description, read as the text \<^verbatim>\<open>nan\<close>, matches no industry.
\<close>

theorem C8_industry_mismatch:
  "industry_mismatch descs =
     (\<exists>d \<in> set (map astype_str descs).
        detect_other_industries (Some d) \<noteq> {}
        \<and> BASE_INDUSTRY \<notin> detect_other_industries (Some d))
   \<and> industry_mismatch descs =
       industry_mismatch
         (filter (\<lambda>x. detect_other_industries (Some (astype_str x)) \<noteq> {}) descs)
   \<and> detect_other_industries (Some d) \<subseteq> set (map fst INDUSTRY_KEYWORDS)
   \<and> detect_other_industries (Some (astype_str None)) = {}"
proof -
  have a: "industry_mismatch descs =
     (\<exists>d \<in> set (map astype_str descs).
        detect_other_industries (Some d) \<noteq> {}
        \<and> BASE_INDUSTRY \<notin> detect_other_industries (Some d))"
    unfolding industry_mismatch_def by (rule mismatch_loop_iff)
  have "map astype_str (filter (\<lambda>x. detect_other_industries (Some (astype_str x)) \<noteq> {}) descs)
      = filter (\<lambda>d. detect_other_industries (Some d) \<noteq> {}) (map astype_str descs)"
    by (simp add: filter_map comp_def)
  then have b: "industry_mismatch descs =
       industry_mismatch
         (filter (\<lambda>x. detect_other_industries (Some (astype_str x)) \<noteq> {}) descs)"
    unfolding industry_mismatch_def
    using mismatch_loop_filter [of "map astype_str descs"] by simp
  show ?thesis using a b detect_subset_taxonomy detect_missing by blast
qed

section \<open>Properties of the stored amounts\<close>

lemma pow10_pos: "0 < pow10 e"
  by (simp add: pow10_def)

lemma parse_decimal_form:
  "parse_decimal s = Some r \<Longrightarrow> \<exists>n k e. r = of_nat n / 10 ^ k * pow10 e"
  by (auto simp: parse_decimal_def Let_def split: prod.splits if_splits option.splits)

lemma parse_decimal_nonneg:
  assumes "parse_decimal s = Some r"
  shows "0 \<le> r"
proof -
  from assms obtain n :: nat and k :: nat and e where r: "r = of_nat n / 10 ^ k * pow10 e"
    using parse_decimal_form by blast
  have "(0::rat) \<le> of_nat n / 10 ^ k" by simp
  moreover have "0 \<le> pow10 e" using pow10_pos [of e] by simp
  ultimately show ?thesis unfolding r by (rule mult_nonneg_nonneg)
qed

lemma parse_unsigned_not_negative: "parse_unsigned s = Some v \<Longrightarrow> \<not> flt0 v"
  by (auto simp: parse_unsigned_def parse_inf_or_nan_def flt0_def Let_def
      split: option.splits if_splits dest: parse_decimal_nonneg)

lemma parse_signed_not_negative:
  "CHR ''-'' \<notin> set s \<Longrightarrow> parse_signed s = Some v \<Longrightarrow> \<not> flt0 v"
  by (cases s) (auto simp: parse_signed_def split: if_splits dest: parse_unsigned_not_negative)

lemma set_strip_with: "set (strip_with sp s) \<subseteq> set s"
proof -
  have "set (strip_with sp s) \<subseteq> set (dropWhile sp s)"
    unfolding strip_with_def using set_dropWhileD [of _ sp "rev (dropWhile sp s)"] by auto
  also have "\<dots> \<subseteq> set s" using set_dropWhileD [of _ sp s] by auto
  finally show ?thesis .
qed

lemma py_float_not_negative:
  assumes "CHR ''-'' \<notin> set s" and "py_float s = Inr v"
  shows "\<not> flt0 v"
proof -
  let ?t = "strip_with c_isspace (filter (\<lambda>c. c \<noteq> CHR ''_'') s)"
  from assms(2) have p: "parse_signed ?t = Some v"
    by (auto simp: py_float_def split: if_splits option.splits)
  have "set ?t \<subseteq> set s" using set_strip_with [of c_isspace "filter (\<lambda>c. c \<noteq> CHR ''_'') s"] by auto
  with assms(1) have "CHR ''-'' \<notin> set ?t" by blast
  then show ?thesis using p by (rule parse_signed_not_negative)
qed

lemma set_clean_amount: "set (clean_amount t) \<subseteq> set t"
  unfolding clean_amount_def strip_def
  using set_strip_with [of py_isspace "filter (\<lambda>c. c \<noteq> CHR '','') t"] by auto

lemma moneyfy_unsigned: "unsigned_cell x \<Longrightarrow> \<not> flt0 (moneyfy x)"
proof (cases x)
  case None
  then show ?thesis by (simp add: moneyfy_def moneyfy_try_def flt0_def)
next
  case (Some t)
  assume "unsigned_cell x"
  with Some have m: "CHR ''-'' \<notin> set t" and np: "\<not> parenthesized (clean_amount t)"
    by (simp_all add: unsigned_cell_def)
  from m set_clean_amount [of t] have m': "CHR ''-'' \<notin> set (clean_amount t)" by blast
  show ?thesis
  proof (cases "py_float (clean_amount t)")
    case (Inl e)
    then show ?thesis using np Some by (simp add: moneyfy_def moneyfy_try_def Let_def flt0_def)
  next
    case (Inr v)
    with m' have "\<not> flt0 v" by (rule py_float_not_negative)
    then show ?thesis using np Some Inr
      by (simp add: moneyfy_def moneyfy_try_def Let_def flt0_def)
  qed
qed

lemma amount_column_unsigned:
  "(\<And>c. col = Some c \<Longrightarrow> unsigned_cell (row c)) \<Longrightarrow> \<not> flt0 (amount_column col row)"
  by (cases col) (auto simp: amount_column_def flt0_def dest: moneyfy_unsigned)

lemma moneyfy_parenthesized:
  "parenthesized (clean_amount t) \<Longrightarrow> py_float (butlast (tl (clean_amount t))) = Inr v
     \<Longrightarrow> moneyfy (Some t) = fneg v"
  by (simp add: moneyfy_def moneyfy_try_def Let_def)

text \<open>
  Claim C3, as stated, fails: the row whose credit cell is \<^verbatim>\<open>(500)\<close> gives a transaction
  whose stored credit is -500.
\<close>

theorem C3_counterexample:
  "flt0 (credit (to_transaction ''Description'' (Some ''Credit'') (Some ''Debit'')
          (map_of [(''Description'', ''REFUND''), (''Credit'', ''(500)''), (''Debit'', ''0'')])))
   \<and> \<not> fge0 (credit (to_transaction ''Description'' (Some ''Credit'') (Some ''Debit'')
          (map_of [(''Description'', ''REFUND''), (''Credit'', ''(500)''), (''Debit'', ''0'')])))"
  by (simp add: to_transaction_def amount_column_def flt0_def fge0_def moneyfy_eval)

text \<open>
  Claim C3, amended. For every row of every table, whatever columns were resolved: when
  the credit cell carries no sign (it is missing, or its text has no minus sign and is not
  enclosed in parentheses), the stored credit is not negative, and likewise the stored
  debit; an unresolved column stores 0. The sign is not resolved away at parse time: a
  text in parentheses stores the negated value of the number between them.
\<close>

theorem C3_unsigned_cells_not_negative:
  assumes "\<And>c. ccol = Some c \<Longrightarrow> unsigned_cell (row c)"
    and "\<And>c. dcol = Some c \<Longrightarrow> unsigned_cell (row c)"
  shows "\<not> flt0 (credit (to_transaction d ccol dcol row))
    \<and> \<not> flt0 (debit (to_transaction d ccol dcol row))
    \<and> amount_column None row = Finite 0
    \<and> (parenthesized (clean_amount t) \<longrightarrow>
         py_float (butlast (tl (clean_amount t))) = Inr v \<longrightarrow> moneyfy (Some t) = fneg v)"
proof -
  have c: "\<not> flt0 (amount_column ccol row)"
    using assms(1) by (rule amount_column_unsigned)
  have d: "\<not> flt0 (amount_column dcol row)"
    using assms(2) by (rule amount_column_unsigned)
  have z: "amount_column None row = Finite 0" by (simp add: amount_column_def)
  show ?thesis using c d z moneyfy_parenthesized [of t v]
    by (simp add: to_transaction_def)
qed

text \<open>
  The hypotheses of C3 at a row with the credit \<^verbatim>\<open>1,234.50\<close> and no debit column, and at
  the text \<^verbatim>\<open>(500)\<close>.
\<close>

theorem C3_unsigned_cells_not_negative_witness:
  "unsigned_cell (map_of [(''Description'', ''SALES''), (''Credit'', ''1,234.50'')] ''Credit'')
   \<and> \<not> flt0 (credit (to_transaction ''Description'' (Some ''Credit'') None
          (map_of [(''Description'', ''SALES''), (''Credit'', ''1,234.50'')])))
   \<and> \<not> flt0 (debit (to_transaction ''Description'' (Some ''Credit'') None
          (map_of [(''Description'', ''SALES''), (''Credit'', ''1,234.50'')])))
   \<and> parenthesized (clean_amount ''(500)'')
   \<and> py_float (butlast (tl (clean_amount ''(500)''))) = Inr (Finite 500)
   \<and> moneyfy (Some ''(500)'') = fneg (Finite 500)"
proof -
  let ?row = "map_of [(''Description'', ''SALES''), (''Credit'', ''1,234.50'')]"
  have u: "unsigned_cell (?row ''Credit'')"
    by (simp add: unsigned_cell_def moneyfy_eval)
  have p: "parenthesized (clean_amount ''(500)'')
     \<and> py_float (butlast (tl (clean_amount ''(500)''))) = Inr (Finite 500)"
    by (simp add: moneyfy_eval)
  have "\<And>c. Some ''Credit'' = Some c \<Longrightarrow> unsigned_cell (?row c)"
    using u by simp
  moreover have "\<And>c. (None :: string option) = Some c \<Longrightarrow> unsigned_cell (?row c)"
    by simp
  ultimately show ?thesis
    using C3_unsigned_cells_not_negative
      [where ccol = "Some ''Credit''" and row = ?row and dcol = None
         and d = "''Description''" and t = "''(500)''" and v = "Finite 500"] u p
    by blast
qed

section \<open>Properties of the ranking\<close>

lemma fge_refl: "x \<noteq> NaN \<Longrightarrow> fge x x"
  by (cases x) simp_all

lemma fge_total: "x \<noteq> NaN \<Longrightarrow> y \<noteq> NaN \<Longrightarrow> fge x y \<or> fge y x"
  by (cases x; cases y) auto

lemma fge_trans: "fge x y \<Longrightarrow> fge y z \<Longrightarrow> fge x z"
  by (cases x; cases y; cases z) auto

lemma fge_antisym: "fge x y \<Longrightarrow> fge y x \<Longrightarrow> x = y"
  by (cases x; cases y) auto

lemma ranks_before_fge: "snd x \<noteq> NaN \<Longrightarrow> ranks_before x y \<Longrightarrow> fge (snd x) (snd y)"
  by (auto simp: ranks_before_def fge_refl)

lemma ranks_before_key:
  "fge (snd x) (snd y) \<Longrightarrow> fst x < fst y \<Longrightarrow> ranks_before x y"
  by (auto simp: ranks_before_def)

lemma set_insert_desc: "set (insert_desc x ys) = insert x (set ys)"
  by (induction ys) auto

lemma sorted_insert_desc:
  assumes "sorted_wrt ranks_before ys"
    and "\<forall>y \<in> set ys. fst x < fst y"
    and "snd x \<noteq> NaN" and "\<forall>y \<in> set ys. snd y \<noteq> NaN"
  shows "sorted_wrt ranks_before (insert_desc x ys)"
  using assms
proof (induction ys)
  case Nil
  show ?case by simp
next
  case (Cons y ys)
  show ?case
  proof (cases "fge (snd x) (snd y)")
    case True
    have "ranks_before x z" if "z \<in> set (y # ys)" for z
    proof -
      have "fge (snd y) (snd z)"
      proof (cases "z = y")
        case True
        then show ?thesis using Cons.prems(4) by (simp add: fge_refl)
      next
        case False
        with that have "z \<in> set ys" by simp
        with Cons.prems(1) have "ranks_before y z" by simp
        then show ?thesis using Cons.prems(4) by (simp add: ranks_before_fge)
      qed
      with True have "fge (snd x) (snd z)" by (rule fge_trans)
      moreover have "fst x < fst z" using Cons.prems(2) that by blast
      ultimately show ?thesis by (rule ranks_before_key)
    qed
    with True Cons.prems(1) show ?thesis by simp
  next
    case False
    have yx: "ranks_before y x"
    proof -
      have "fge (snd y) (snd x)"
        using fge_total [of "snd x" "snd y"] False Cons.prems(3,4) by simp
      moreover have "snd y \<noteq> snd x"
        using False fge_refl [of "snd x"] Cons.prems(3) by auto
      ultimately show ?thesis by (simp add: ranks_before_def)
    qed
    have "sorted_wrt ranks_before (insert_desc x ys)"
      using Cons.IH Cons.prems by simp
    moreover have "\<forall>z \<in> set (insert_desc x ys). ranks_before y z"
      using yx Cons.prems(1) by (simp add: set_insert_desc)
    ultimately show ?thesis using False by simp
  qed
qed

lemma set_sort_desc: "set (sort_desc xs) = set xs"
  by (induction xs) (simp_all add: sort_desc_def set_insert_desc)

lemma sort_desc_Cons: "sort_desc (x # xs) = insert_desc x (sort_desc xs)"
  by (simp add: sort_desc_def)

lemma sorted_sort_desc:
  assumes "sorted_wrt (<) (map fst xs)" and "\<forall>x \<in> set xs. snd x \<noteq> NaN"
  shows "sorted_wrt ranks_before (sort_desc xs)"
  using assms
proof (induction xs)
  case Nil
  show ?case by (simp add: sort_desc_def)
next
  case (Cons x xs)
  have "sorted_wrt ranks_before (sort_desc xs)" using Cons by simp
  moreover have "\<forall>y \<in> set (sort_desc xs). fst x < fst y"
    using Cons.prems(1) by (auto simp: set_sort_desc)
  moreover have "snd x \<noteq> NaN" using Cons.prems(2) by simp
  moreover have "\<forall>y \<in> set (sort_desc xs). snd y \<noteq> NaN"
    using Cons.prems(2) by (simp add: set_sort_desc)
  ultimately show ?case unfolding sort_desc_Cons by (rule sorted_insert_desc)
qed

lemma fadd_fge0: "fge0 x \<Longrightarrow> fge0 y \<Longrightarrow> fge0 (fadd x y)"
  by (cases x; cases y) (simp_all add: fge0_def)

lemma foldl_fadd_fge0:
  "fge0 a \<Longrightarrow> \<forall>x \<in> set xs. fge0 x \<Longrightarrow> fge0 (foldl fadd a xs)"
  by (induction xs arbitrary: a) (simp_all add: fadd_fge0)

lemma fgt0_fge0: "fgt0 x \<Longrightarrow> fge0 x"
  by (cases x) (simp_all add: fgt0_def fge0_def)

lemma nansum_fge0:
  assumes "\<forall>x \<in> set xs. fgt0 x"
  shows "fge0 (nansum xs)"
proof -
  have "fge0 (Finite 0)" by (simp add: fge0_def)
  moreover have "\<forall>x \<in> set (filter (\<lambda>x. x \<noteq> NaN) xs). fge0 x"
    using assms fgt0_fge0 by simp
  ultimately show ?thesis unfolding nansum_def by (rule foldl_fadd_fge0)
qed

lemma length_insert_desc: "length (insert_desc x ys) = Suc (length ys)"
  by (induction ys) simp_all

lemma length_sort_desc: "length (sort_desc xs) = length xs"
  by (induction xs) (simp_all add: sort_desc_def length_insert_desc)

lemma fge0_not_NaN: "fge0 x \<Longrightarrow> x \<noteq> NaN"
  by (auto simp: fge0_def)

lemma groupby_sum_keys: "map fst (groupby_sum txs) = sort (remdups (map company txs))"
  by (simp add: groupby_sum_def comp_def)

lemma groupby_sum_keys_sorted: "sorted_wrt (<) (map fst (groupby_sum txs))"
  unfolding groupby_sum_keys
  by (simp add: strict_sorted_iff)

lemma groupby_sum_positive_not_NaN:
  "\<forall>x \<in> set (groupby_sum (positive_credits data)). snd x \<noteq> NaN"
proof
  fix x assume "x \<in> set (groupby_sum (positive_credits data))"
  then obtain k where x: "x = (k, nansum (map credit (filter (\<lambda>t. company t = k) (positive_credits data))))"
    by (auto simp: groupby_sum_def)
  have "\<forall>v \<in> set (map credit (filter (\<lambda>t. company t = k) (positive_credits data))). fgt0 v"
    by (auto simp: positive_credits_def)
  then have "fge0 (snd x)" unfolding x snd_conv by (rule nansum_fge0)
  then show "snd x \<noteq> NaN" by (rule fge0_not_NaN)
qed

lemma top5_groups_eq:
  "top5_groups data = take 5 (sort_desc (groupby_sum (positive_credits data)))"
proof -
  let ?gs = "groupby_sum (positive_credits data)"
  have a: "filter (\<lambda>x. snd x \<noteq> NaN) ?gs = ?gs"
    using groupby_sum_positive_not_NaN [of data] by (simp add: filter_id_conv)
  have b: "filter (\<lambda>x. snd x = NaN) ?gs = []"
    using groupby_sum_positive_not_NaN [of data] by (simp add: filter_empty_conv)
  show ?thesis by (simp add: top5_groups_def nlargest_def a b)
qed

lemma ranking_sorted:
  "sorted_wrt ranks_before (sort_desc (groupby_sum (positive_credits data)))"
  using groupby_sum_keys_sorted groupby_sum_positive_not_NaN by (rule sorted_sort_desc)

text \<open>
  Claim C4, amended. For every merged input, the ranked companies stand in the order of
  their summed credit, the larger first, and companies with equal summed credit stand in
  the ascending order of their names (the order of the sorted group keys), not in the
  order in which they were first seen. The selection keeps at most five of the groups, and
  every selected company ranks before every company left out: of two companies with equal
  summed credit at the cut, the one with the smaller name is kept.
\<close>

theorem C4_ties_by_company_name:
  "sorted_wrt ranks_before (top5_groups data)
   \<and> set (top5_groups data) \<subseteq> set (groupby_sum (positive_credits data))
   \<and> length (top5_groups data) = min 5 (length (groupby_sum (positive_credits data)))
   \<and> (\<forall>x \<in> set (top5_groups data).
        \<forall>y \<in> set (groupby_sum (positive_credits data)) - set (top5_groups data).
          ranks_before x y)"
proof -
  let ?gs = "groupby_sum (positive_credits data)"
  let ?l = "sort_desc ?gs"
  have l: "sorted_wrt ranks_before (take 5 ?l @ drop 5 ?l)"
    using ranking_sorted [of data] by simp
  then have s: "sorted_wrt ranks_before (take 5 ?l)"
    and c: "\<forall>x \<in> set (take 5 ?l). \<forall>y \<in> set (drop 5 ?l). ranks_before x y"
    unfolding sorted_wrt_append by blast+
  have "set ?l = set (take 5 ?l) \<union> set (drop 5 ?l)"
    using set_append [of "take 5 ?l" "drop 5 ?l"] by simp
  then have d: "set ?gs - set (take 5 ?l) \<subseteq> set (drop 5 ?l)"
    by (auto simp: set_sort_desc)
  have sub: "set (take 5 ?l) \<subseteq> set ?gs"
    using set_take_subset [of 5 ?l] by (simp add: set_sort_desc)
  have len: "length (take 5 ?l) = min 5 (length ?gs)"
    by (simp add: length_sort_desc)
  have e: "\<forall>x \<in> set (take 5 ?l). \<forall>y \<in> set ?gs - set (take 5 ?l). ranks_before x y"
    using c d by blast
  show ?thesis unfolding top5_groups_eq using s sub len e by blast
qed

text \<open>The example of six companies with the same credit, evaluated.\<close>

lemma tie_example_eval:
  "tie_example = map (\<lambda>c. \<lparr> desc = Some c, credit = Finite 100, debit = Finite 0, company = c \<rparr>)
     [''F'', ''E'', ''D'', ''C'', ''B'', ''A'']"
  unfolding tie_example_def by code_simp

lemma tie_example_groups:
  "groupby_sum (positive_credits tie_example) =
     [(''A'', Finite 100), (''B'', Finite 100), (''C'', Finite 100), (''D'', Finite 100),
      (''E'', Finite 100), (''F'', Finite 100)]"
  unfolding tie_example_eval
  by (simp add: groupby_sum_def positive_credits_def fgt0_def nansum_def)

lemma tie_example_top5_groups:
  "top5_groups tie_example =
     [(''A'', Finite 100), (''B'', Finite 100), (''C'', Finite 100), (''D'', Finite 100),
      (''E'', Finite 100)]"
  unfolding top5_groups_def tie_example_groups
  by (simp add: nlargest_def sort_desc_def)

lemma tie_example_total: "total_in tie_example = Finite 600"
  unfolding tie_example_eval by (simp add: total_in_def nansum_def)

lemma tie_example_first_seen:
  "spec_groupby_first_seen (positive_credits tie_example) =
     [(''F'', Finite 100), (''E'', Finite 100), (''D'', Finite 100), (''C'', Finite 100),
      (''B'', Finite 100), (''A'', Finite 100)]"
  unfolding tie_example_eval
  by (simp add: spec_groupby_first_seen_def positive_credits_def fgt0_def nansum_def)

lemma tie_example_spec_top5:
  "spec_top5_first_seen tie_example =
     [(''F'', Finite 100), (''E'', Finite 100), (''D'', Finite 100), (''C'', Finite 100),
      (''B'', Finite 100)]"
  unfolding spec_top5_first_seen_def tie_example_first_seen
  by (simp add: nlargest_def sort_desc_def)

text \<open>
  Claim C4, as stated, fails. The six companies F, E, D, C, B, A, met in this order, have
  the summed credit 100 each and the grand total is 600. The code selects A, B, C, D, E
  and leaves out F, the company seen first; with ties going to the group seen first, the
  selection would be F, E, D, C, B.
\<close>

theorem C4_counterexample:
  "fgt0 (total_in tie_example)
   \<and> map company tie_example = [''F'', ''E'', ''D'', ''C'', ''B'', ''A'']
   \<and> top5_groups tie_example =
       [(''A'', Finite 100), (''B'', Finite 100), (''C'', Finite 100), (''D'', Finite 100),
        (''E'', Finite 100)]
   \<and> spec_top5_first_seen tie_example =
       [(''F'', Finite 100), (''E'', Finite 100), (''D'', Finite 100), (''C'', Finite 100),
        (''B'', Finite 100)]
   \<and> top5_groups tie_example \<noteq> spec_top5_first_seen tie_example"
proof -
  have "map company tie_example = [''F'', ''E'', ''D'', ''C'', ''B'', ''A'']"
    unfolding tie_example_eval by simp
  then show ?thesis
    unfolding tie_example_top5_groups tie_example_spec_top5 tie_example_total
    by (simp add: fgt0_def)
qed

text \<open>
  The bounded quantifiers of C4 at the example: A is selected, F is a group that is left
  out, and A ranks before F.
\<close>

theorem C4_ties_by_company_name_witness:
  "(''A'', Finite 100) \<in> set (top5_groups tie_example)
   \<and> (''F'', Finite 100) \<in>
        set (groupby_sum (positive_credits tie_example)) - set (top5_groups tie_example)
   \<and> ranks_before (''A'', Finite 100) (''F'', Finite 100)"
proof -
  have a: "(''A'', Finite 100) \<in> set (top5_groups tie_example)"
    unfolding tie_example_top5_groups by simp
  have f: "(''F'', Finite 100) \<in>
        set (groupby_sum (positive_credits tie_example)) - set (top5_groups tie_example)"
    unfolding tie_example_top5_groups tie_example_groups by simp
  from C4_ties_by_company_name [of tie_example]
  have "\<forall>x \<in> set (top5_groups tie_example).
        \<forall>y \<in> set (groupby_sum (positive_credits tie_example)) - set (top5_groups tie_example).
          ranks_before x y"
    by blast
  with a f have "ranks_before (''A'', Finite 100) (''F'', Finite 100)" by blast
  with a f show ?thesis by blast
qed


section \<open>Properties of the shares\<close>

lemma round_half_even_fraction:
  assumes "0 < b"
  shows "round_half_even (of_int a / of_int b) =
     (if 2 * (a mod b) < b then a div b
      else if b < 2 * (a mod b) then a div b + 1
      else if even (a div b) then a div b else a div b + 1)"
proof -
  have f: "\<lfloor>(of_int a / of_int b :: rat)\<rfloor> = a div b"
    by (rule floor_divide_of_int_eq)
  have "(of_int a :: rat) = of_int (a div b) * of_int b + of_int (a mod b)"
    by (metis of_int_add of_int_mult div_mult_mod_eq)
  then have d: "(of_int a / of_int b :: rat) - of_int (a div b) = of_int (a mod b) / of_int b"
    using assms by (simp add: field_simps)
  have lt: "(of_int (a mod b) / of_int b < (1 / 2 :: rat)) = (2 * (a mod b) < b)"
  proof -
    have "(of_int (a mod b) / of_int b < (1 / 2 :: rat)) = ((of_int (2 * (a mod b)) :: rat) < of_int b)"
      using assms by (simp add: field_simps)
    then show ?thesis by (simp only: of_int_less_iff)
  qed
  have gt: "((1 / 2 :: rat) < of_int (a mod b) / of_int b) = (b < 2 * (a mod b))"
  proof -
    have "((1 / 2 :: rat) < of_int (a mod b) / of_int b) = ((of_int b :: rat) < of_int (2 * (a mod b)))"
      using assms by (simp add: field_simps)
    then show ?thesis by (simp only: of_int_less_iff)
  qed
  show ?thesis
    unfolding round_half_even_def Let_def f d lt gt by simp
qed


lemma finite_nonneg_Finite: "finite_nonneg x \<Longrightarrow> x = Finite (fval x) \<and> 0 \<le> fval x"
  by (cases x) (simp_all add: finite_nonneg_def fval_def)



lemma sum_list_fval_nonneg:
  "\<forall>x \<in> set xs. finite_nonneg x \<Longrightarrow> 0 \<le> sum_list (map fval xs)"
  by (rule sum_list_nonneg) (auto simp: finite_nonneg_Finite)



































section \<open>Properties of the order of the tables\<close>









text \<open>Evaluation of the rounding to binary64.\<close>

lemma floor_numeral_fraction:
  "\<lfloor>(numeral a / numeral b :: rat)\<rfloor> = numeral a div numeral b"
  using floor_divide_of_int_eq [of "numeral a" "numeral b", where ?'a = rat] by simp

lemma ceiling_numeral_fraction:
  "\<lceil>(numeral a / numeral b :: rat)\<rceil> = - ((- numeral a) div numeral b)"
  using floor_divide_of_int_eq [of "- numeral a" "numeral b", where ?'a = rat]
  by (simp add: ceiling_def)

lemma round_half_even_numeral_fraction:
  "round_half_even (numeral a / numeral b) =
     (if 2 * (numeral a mod numeral b) < (numeral b :: int) then numeral a div numeral b
      else if numeral b < 2 * (numeral a mod numeral b :: int) then numeral a div numeral b + 1
      else if even (numeral a div numeral b :: int) then numeral a div numeral b
      else numeral a div numeral b + 1)"
  using round_half_even_fraction [of "numeral b" "numeral a"] by simp

lemma round_half_even_numeral: "round_half_even (numeral a) = numeral a"
  by (simp add: round_half_even_def)

lemmas binary64_eval = round_binary64_def floor_log2_def pow2_def Let_def bit_length.simps
  floor_numeral_fraction ceiling_numeral_fraction round_half_even_numeral_fraction
  round_half_even_numeral

lemma r01: "round_binary64 (1 / 10) = 3602879701896397 / 36028797018963968"
  by (simp add: binary64_eval)

lemma r02: "round_binary64 (1 / 5) = 3602879701896397 / 18014398509481984"
  by (simp add: binary64_eval)

lemma r03: "round_binary64 (3 / 10) = 5404319552844595 / 18014398509481984"
  by (simp add: binary64_eval)

lemma r1: "round_binary64 1 = 1" "round_binary64 (1/2) = 1/2" "round_binary64 9007199254740993 = 9007199254740992"
  "round_binary64 9007199254740995 = 9007199254740996"
  by (simp_all add: binary64_eval)











section \<open>Properties of the policy mapper\<close>

lemma policy_loop_append:
  "policy_loop (xs @ ys) st = policy_loop ys (policy_loop xs st)"
  by (induction xs arbitrary: st) simp_all

lemma priority_get_le: "priority_get l \<le> 5"
  by (simp add: priority_get_def priority_def)

lemma priority_get_5: "priority_get l = 5 \<Longrightarrow> l = ''Escalate''"
  by (simp add: priority_get_def priority_def split: if_splits)

lemma priority_get_Escalate: "priority_get ''Escalate'' = 5"
  by (simp add: priority_get_def priority_def)

lemma policy_step_ESCALATE:
  "fst (policy_step ESCALATE_HIGH_item st) = ''Escalate''"
proof -
  obtain f a s where st: "st = (f, a, s)" by (cases st)
  have "priority_get f \<le> 5" by (rule priority_get_le)
  then consider "priority_get f < 5" | "priority_get f = 5" by linarith
  then show ?thesis
  proof cases
    case 1
    then show ?thesis
      by (simp add: st policy_step_def Let_def ESCALATE_HIGH_item_def priority_get_Escalate)
  next
    case 2
    then have "f = ''Escalate''" by (rule priority_get_5)
    then show ?thesis
      by (simp add: st policy_step_def Let_def ESCALATE_HIGH_item_def priority_get_Escalate)
  qed
qed

lemma policy_level_High: "policy_level ''High'' rule_ids = ''Escalate''"
  by (simp add: policy_level_def policy_result_def policy_items_def risk_item_def
      policy_loop_append policy_step_ESCALATE)

text \<open>
  The invariant of the second loop: \<^verbatim>\<open>seen\<close> is the set of \<^verbatim>\<open>actions\<close>, and
  \<^verbatim>\<open>actions\<close> lists the texts met so far in the order of their first occurrence.
\<close>

lemma policy_loop_actions:
  "fst (snd (policy_loop its (f, acts, set acts))) = spec_first_seen acts (map action its)
   \<and> snd (snd (policy_loop its (f, acts, set acts))) = set (spec_first_seen acts (map action its))"
proof (induction its arbitrary: f acts)
  case Nil
  show ?case by simp
next
  case (Cons it its)
  have ins: "insert (action it) (set acts) = set (acts @ [action it])" by simp
  show ?case
  proof (cases "action it \<in> set acts")
    case True
    then show ?thesis using Cons.IH [of _ acts]
      by (simp add: policy_step_def Let_def)
  next
    case False
    then show ?thesis using Cons.IH [of _ "acts @ [action it]"]
      unfolding policy_loop.simps policy_step_def Let_def ins
      by simp
  qed
qed

lemma spec_first_seen_distinct: "distinct acc \<Longrightarrow> distinct (spec_first_seen acc xs)"
  by (induction xs arbitrary: acc) simp_all

lemma spec_first_seen_set: "set (spec_first_seen acc xs) = set acc \<union> set xs"
  by (induction xs arbitrary: acc) auto

lemma policy_actions_first_seen:
  "policy_actions risk rule_ids = spec_first_seen [] (map action (policy_items risk rule_ids))"
  using policy_loop_actions [of "policy_items risk rule_ids" "''Standard''" "[]"]
  by (simp add: policy_actions_def policy_result_def)

lemma policy_actions_example:
  "policy_actions ''High'' [''INCOME_CONCENTRATION'', ''ROUND_AMOUNT_PATTERN''] =
     [action INCOME_CONCENTRATION_item, action ROUND_AMOUNT_PATTERN_item,
      action ESCALATE_HIGH_item]"
  by (simp add: policy_actions_def policy_result_def policy_items_def POLICY_MATRIX_def
      POLICY_MATRIX_entries_def risk_item_def policy_step_def Let_def
      INCOME_CONCENTRATION_item_def ROUND_AMOUNT_PATTERN_item_def ESCALATE_HIGH_item_def)

lemma policy_actions_example_distinct:
  "distinct [action INCOME_CONCENTRATION_item, action ROUND_AMOUNT_PATTERN_item,
      action ESCALATE_HIGH_item]"
  by (simp add: INCOME_CONCENTRATION_item_def ROUND_AMOUNT_PATTERN_item_def
      ESCALATE_HIGH_item_def)

text \<open>
  Claim C6. Whatever rule identifiers fired, a risk of \<^verbatim>\<open>"High"\<close> gives the action level
  \<^verbatim>\<open>"Escalate"\<close>, and the actions are the distinct texts of the collected entries in the
  order of their first occurrence. For the rule identifiers INCOME_CONCENTRATION and
  ROUND_AMOUNT_PATTERN with risk High, the action level is \<^verbatim>\<open>"Escalate"\<close> and the actions
  are exactly three distinct texts: the concentration action, the round-amount action and
  the escalation action, in this order, joined by single spaces in the returned text.
\<close>

theorem C6_high_risk_escalates:
  "fst (build_policy_actions ''High'' rule_ids) = ''Escalate''
   \<and> distinct (policy_actions ''High'' rule_ids)
   \<and> policy_actions ''High'' rule_ids =
       spec_first_seen [] (map action (policy_items ''High'' rule_ids))
   \<and> fst (build_policy_actions ''High'' [''INCOME_CONCENTRATION'', ''ROUND_AMOUNT_PATTERN''])
       = ''Escalate''
   \<and> policy_actions ''High'' [''INCOME_CONCENTRATION'', ''ROUND_AMOUNT_PATTERN''] =
       [action INCOME_CONCENTRATION_item, action ROUND_AMOUNT_PATTERN_item,
        action ESCALATE_HIGH_item]
   \<and> distinct [action INCOME_CONCENTRATION_item, action ROUND_AMOUNT_PATTERN_item,
        action ESCALATE_HIGH_item]
   \<and> snd (build_policy_actions ''High'' [''INCOME_CONCENTRATION'', ''ROUND_AMOUNT_PATTERN''])
       = action INCOME_CONCENTRATION_item @ '' '' @ action ROUND_AMOUNT_PATTERN_item
         @ '' '' @ action ESCALATE_HIGH_item"
proof -
  have lvl: "\<And>rids. fst (build_policy_actions ''High'' rids) = ''Escalate''"
    by (simp add: build_policy_actions_def policy_level_High)
  have dist: "distinct (policy_actions ''High'' rule_ids)"
    by (simp add: policy_actions_first_seen spec_first_seen_distinct)
  have joined: "snd (build_policy_actions ''High'' [''INCOME_CONCENTRATION'', ''ROUND_AMOUNT_PATTERN''])
       = action INCOME_CONCENTRATION_item @ '' '' @ action ROUND_AMOUNT_PATTERN_item
         @ '' '' @ action ESCALATE_HIGH_item"
    unfolding build_policy_actions_def snd_conv policy_actions_example by simp
  show ?thesis
    using lvl dist policy_actions_first_seen policy_actions_example
      policy_actions_example_distinct joined
    by blast
qed

lemma collect_items_filter:
  "collect_items rule_ids =
     map (\<lambda>r. the (POLICY_MATRIX r)) (filter (\<lambda>r. POLICY_MATRIX r \<noteq> None) rule_ids)"
  by (induction rule_ids) (auto split: option.splits)

lemma POLICY_MATRIX_Some:
  "POLICY_MATRIX r = Some it \<Longrightarrow> it \<in> set (map snd POLICY_MATRIX_entries)"
  unfolding POLICY_MATRIX_def by (drule map_of_SomeD) force

lemma collect_items_known:
  "set (collect_items rule_ids) \<subseteq> set (map snd POLICY_MATRIX_entries)"
  by (induction rule_ids) (auto split: option.splits dest: POLICY_MATRIX_Some)

lemma risk_item_known: "risk_item risk \<in> set (map snd POLICY_MATRIX_entries)"
  by (simp add: risk_item_def POLICY_MATRIX_entries_def)

lemma risk_item_matrix:
  "POLICY_MATRIX (if risk = ''High'' then ''ESCALATE_HIGH''
                  else if risk = ''Medium'' then ''MONITOR_MEDIUM'' else ''STANDARD_SAFE'')
   = Some (risk_item risk)"
  by (simp add: risk_item_def POLICY_MATRIX_def POLICY_MATRIX_entries_def)

lemma policy_items_known:
  "set (policy_items risk rule_ids) \<subseteq> set (map snd POLICY_MATRIX_entries)"
  using collect_items_known [of rule_ids] risk_item_known [of risk]
  by (simp add: policy_items_def)

lemma known_item_level:
  "it \<in> set (map snd POLICY_MATRIX_entries) \<Longrightarrow> action_level it \<in> known_levels"
  unfolding POLICY_MATRIX_entries_def known_levels_def
  by (elim disjE | simp add: INCOME_CONCENTRATION_item_def
      INDUSTRY_MISMATCH_item_def ROUND_AMOUNT_PATTERN_item_def ESCALATE_HIGH_item_def
      MONITOR_MEDIUM_item_def STANDARD_SAFE_item_def)+

lemma known_item_action: "it \<in> set (map snd POLICY_MATRIX_entries) \<Longrightarrow> action it \<noteq> []"
  unfolding POLICY_MATRIX_entries_def
  by (elim disjE | simp add: INCOME_CONCENTRATION_item_def
      INDUSTRY_MISMATCH_item_def ROUND_AMOUNT_PATTERN_item_def ESCALATE_HIGH_item_def
      MONITOR_MEDIUM_item_def STANDARD_SAFE_item_def)+

lemma policy_loop_level:
  "fst (policy_loop its st) \<in> insert (fst st) (action_level ` set its)"
proof (induction its arbitrary: st)
  case Nil
  show ?case by simp
next
  case (Cons it its)
  have "fst (policy_step it st) = fst st \<or> fst (policy_step it st) = action_level it"
    by (cases st) (simp add: policy_step_def Let_def)
  with Cons.IH [of "policy_step it st"] show ?case by auto
qed

lemma policy_level_known: "policy_level risk rule_ids \<in> known_levels"
proof -
  let ?its = "policy_items risk rule_ids"
  have "policy_level risk rule_ids \<in> insert ''Standard'' (action_level ` set ?its)"
    using policy_loop_level [of ?its "(''Standard'', [], {})"]
    by (simp add: policy_level_def policy_result_def)
  then consider "policy_level risk rule_ids = ''Standard''"
    | it where "it \<in> set ?its" "policy_level risk rule_ids = action_level it"
    by blast
  then show ?thesis
  proof cases
    case 1
    then show ?thesis by (simp add: known_levels_def)
  next
    case 2
    from 2(1) policy_items_known have "it \<in> set (map snd POLICY_MATRIX_entries)" by blast
    then show ?thesis using 2(2) known_item_level by simp
  qed
qed

lemma join_nonempty: "xs \<noteq> [] \<Longrightarrow> [] \<notin> set xs \<Longrightarrow> join sep xs \<noteq> []"
  by (induction sep xs rule: join.induct) auto

lemma policy_actions_text_nonempty: "snd (build_policy_actions risk rule_ids) \<noteq> []"
proof -
  let ?as = "policy_actions risk rule_ids"
  let ?its = "policy_items risk rule_ids"
  have s: "set ?as = action ` set ?its"
    by (simp add: policy_actions_first_seen spec_first_seen_set)
  have "?its \<noteq> []" by (simp add: policy_items_def)
  with s have ne: "?as \<noteq> []" by auto
  have "[] \<notin> set ?as"
  proof
    assume "[] \<in> set ?as"
    with s obtain it where it: "it \<in> set ?its" "action it = []" by auto
    from it(1) policy_items_known have "it \<in> set (map snd POLICY_MATRIX_entries)" by blast
    with it(2) known_item_action show False by blast
  qed
  with ne show ?thesis by (simp add: build_policy_actions_def join_nonempty)
qed

lemma policy_items_spec_entries: "policy_items risk rule_ids = spec_entries risk rule_ids"
  using risk_item_matrix [of risk]
  by (simp add: policy_items_def spec_entries_def spec_risk_key_def collect_items_filter)

lemma collect_items_known_only:
  "collect_items (filter (\<lambda>r. POLICY_MATRIX r \<noteq> None) rule_ids) = collect_items rule_ids"
  by (induction rule_ids) (auto split: option.splits)

lemma build_policy_actions_known_only:
  "build_policy_actions risk (filter (\<lambda>r. POLICY_MATRIX r \<noteq> None) rule_ids)
     = build_policy_actions risk rule_ids"
  unfolding build_policy_actions_def policy_level_def policy_actions_def policy_result_def
    policy_items_def collect_items_known_only ..

lemma policy_step_priority:
  "priority_get (fst st) \<le> priority_get (fst (policy_step it st))
   \<and> priority_get (action_level it) \<le> priority_get (fst (policy_step it st))"
  by (cases st) (simp add: policy_step_def Let_def)

lemma policy_loop_priority:
  "priority_get (fst st) \<le> priority_get (fst (policy_loop its st))
   \<and> (\<forall>it \<in> set its. priority_get (action_level it) \<le> priority_get (fst (policy_loop its st)))"
proof (induction its arbitrary: st)
  case Nil
  show ?case by simp
next
  case (Cons it its)
  from Cons.IH [of "policy_step it st"]
  have a: "priority_get (fst (policy_step it st)) \<le> priority_get (fst (policy_loop (it # its) st))"
    and b: "\<forall>x \<in> set its. priority_get (action_level x) \<le> priority_get (fst (policy_loop (it # its) st))"
    by simp_all
  from policy_step_priority [of st it] a
  have "priority_get (fst st) \<le> priority_get (fst (policy_loop (it # its) st))"
    and "priority_get (action_level it) \<le> priority_get (fst (policy_loop (it # its) st))"
    by linarith+
  with b show ?case by simp
qed

lemma policy_level_maximal:
  "\<forall>it \<in> set (spec_entries risk rule_ids).
     priority_get (action_level it) \<le> priority_get (policy_level risk rule_ids)"
  using policy_loop_priority [of "(''Standard'', [], {})" "policy_items risk rule_ids"]
  by (simp add: policy_level_def policy_result_def policy_items_spec_entries)

lemma risk_item_priority_zero:
  "priority_get (action_level (risk_item risk)) = 0 \<Longrightarrow> action_level (risk_item risk) = ''Standard''"
  by (simp add: risk_item_def priority_get_def priority_def ESCALATE_HIGH_item_def
      MONITOR_MEDIUM_item_def STANDARD_SAFE_item_def split: if_splits)

lemma policy_level_among_entries:
  "policy_level risk rule_ids \<in> action_level ` set (spec_entries risk rule_ids)"
proof -
  let ?its = "policy_items risk rule_ids"
  have r: "risk_item risk \<in> set ?its" by (simp add: policy_items_def)
  have "policy_level risk rule_ids \<in> insert ''Standard'' (action_level ` set ?its)"
    using policy_loop_level [of ?its "(''Standard'', [], {})"]
    by (simp add: policy_level_def policy_result_def)
  moreover have "policy_level risk rule_ids \<in> action_level ` set ?its"
    if s: "policy_level risk rule_ids = ''Standard''"
  proof -
    have "priority_get (action_level (risk_item risk)) \<le> priority_get (policy_level risk rule_ids)"
      using policy_level_maximal [of risk rule_ids] r by (simp add: policy_items_spec_entries)
    then have "priority_get (action_level (risk_item risk)) = 0"
      unfolding s by (simp add: priority_get_def priority_def)
    then have "action_level (risk_item risk) = ''Standard''" by (rule risk_item_priority_zero)
    with r s show ?thesis by (metis imageI)
  qed
  ultimately show ?thesis unfolding policy_items_spec_entries by blast
qed

text \<open>
  Claim C9. For every risk string and every list of rule identifiers, the result of the
  policy mapper is that of the entries of the specification: the rule identifiers that are
  no key of the policy matrix are passed over (the result is the same without them), and
  exactly one risk-based entry follows the collected ones (ESCALATE_HIGH for \<^verbatim>\<open>"High"\<close>,
  MONITOR_MEDIUM for \<^verbatim>\<open>"Medium"\<close>, STANDARD_SAFE for every other risk). The returned
  actions text is the distinct action texts of these entries in the order of their first
  occurrence, joined by single spaces, and is not empty; the returned action level is the
  level of one of these entries, no entry has a level of higher priority, and it is one
  of the six known levels.
\<close>

theorem C9_policy_mapper_result:
  "build_policy_actions risk rule_ids =
     build_policy_actions risk (filter (\<lambda>r. POLICY_MATRIX r \<noteq> None) rule_ids)
   \<and> snd (build_policy_actions risk rule_ids) =
       join '' '' (spec_first_seen [] (map action (spec_entries risk rule_ids)))
   \<and> fst (build_policy_actions risk rule_ids) \<in> action_level ` set (spec_entries risk rule_ids)
   \<and> (\<forall>it \<in> set (spec_entries risk rule_ids).
         priority_get (action_level it) \<le> priority_get (fst (build_policy_actions risk rule_ids)))
   \<and> snd (build_policy_actions risk rule_ids) \<noteq> []
   \<and> fst (build_policy_actions risk rule_ids) \<in> known_levels"
proof -
  have a: "build_policy_actions risk rule_ids =
     build_policy_actions risk (filter (\<lambda>r. POLICY_MATRIX r \<noteq> None) rule_ids)"
    by (rule build_policy_actions_known_only [symmetric])
  have b: "snd (build_policy_actions risk rule_ids) =
       join '' '' (spec_first_seen [] (map action (spec_entries risk rule_ids)))"
    by (simp add: build_policy_actions_def policy_actions_first_seen policy_items_spec_entries)
  have c: "fst (build_policy_actions risk rule_ids) \<in> action_level ` set (spec_entries risk rule_ids)"
    by (simp add: build_policy_actions_def policy_level_among_entries)
  have d: "\<forall>it \<in> set (spec_entries risk rule_ids).
         priority_get (action_level it) \<le> priority_get (fst (build_policy_actions risk rule_ids))"
    using policy_level_maximal [of risk rule_ids] by (simp add: build_policy_actions_def)
  have e: "fst (build_policy_actions risk rule_ids) \<in> known_levels"
    by (simp add: build_policy_actions_def policy_level_known)
  show ?thesis using a b c d e policy_actions_text_nonempty [of risk rule_ids] by blast
qed

lemma medium_example:
  "build_policy_actions ''Medium'' [''BOGUS'', ''INDUSTRY_MISMATCH''] =
     (''Clarification Required'',
      action INDUSTRY_MISMATCH_item @ '' '' @ action MONITOR_MEDIUM_item)"
  by (simp add: build_policy_actions_def policy_level_def policy_actions_def policy_result_def
      policy_items_def POLICY_MATRIX_def POLICY_MATRIX_entries_def risk_item_def policy_step_def
      Let_def priority_get_def priority_def INDUSTRY_MISMATCH_item_def MONITOR_MEDIUM_item_def)

lemma medium_entries:
  "spec_entries ''Medium'' [''BOGUS'', ''INDUSTRY_MISMATCH''] =
     [INDUSTRY_MISMATCH_item, MONITOR_MEDIUM_item]"
  by (simp add: spec_entries_def spec_risk_key_def POLICY_MATRIX_def POLICY_MATRIX_entries_def)

text \<open>
  The bounded quantifier of C9 at the risk \<^verbatim>\<open>"Medium"\<close> with an unknown identifier and
  INDUSTRY_MISMATCH: the unknown identifier leaves no trace, the monitoring entry is
  appended, and the level is that of the mismatch entry, which has the higher priority.
\<close>

theorem C9_policy_mapper_result_witness:
  "MONITOR_MEDIUM_item \<in> set (spec_entries ''Medium'' [''BOGUS'', ''INDUSTRY_MISMATCH''])
   \<and> priority_get (action_level MONITOR_MEDIUM_item)
       \<le> priority_get (fst (build_policy_actions ''Medium'' [''BOGUS'', ''INDUSTRY_MISMATCH'']))
   \<and> build_policy_actions ''Medium'' [''BOGUS'', ''INDUSTRY_MISMATCH''] =
       (''Clarification Required'',
        action INDUSTRY_MISMATCH_item @ '' '' @ action MONITOR_MEDIUM_item)"
proof -
  have m: "MONITOR_MEDIUM_item \<in> set (spec_entries ''Medium'' [''BOGUS'', ''INDUSTRY_MISMATCH''])"
    unfolding medium_entries by simp
  from C9_policy_mapper_result [of "''Medium''" "[''BOGUS'', ''INDUSTRY_MISMATCH'']"]
  have "\<forall>it \<in> set (spec_entries ''Medium'' [''BOGUS'', ''INDUSTRY_MISMATCH'']).
         priority_get (action_level it)
           \<le> priority_get (fst (build_policy_actions ''Medium'' [''BOGUS'', ''INDUSTRY_MISMATCH'']))"
    by blast
  with m have "priority_get (action_level MONITOR_MEDIUM_item)
       \<le> priority_get (fst (build_policy_actions ''Medium'' [''BOGUS'', ''INDUSTRY_MISMATCH'']))"
    by blast
  with m medium_example show ?thesis by blast
qed

end
